theory Spec2Isabelle
  imports Complex_Main "HOL-Library.Char_ord" "HOL-Library.List_Lexorder"
begin

unbundle bit_operations_syntax

section \<open>The bit-flag classes of \<open>cse/flags.py\<close>\<close>

text \<open>
  A flag is declared in a class body as a \<open>_flag_property\<close>: a function that returns the
  flag's integer (\<open>1 << i\<close>) and whose docstring is the token sent to the search API.
  The record keeps the attribute name, the docstring and the integer that
  \<open>_original_func(None)\<close> returns. A class is the list of its flag properties in the
  order the class body declares them; a class body binds each name once.
\<close>

record flag_property =
  name :: string
  doc :: string
  flag :: int

type_synonym flags_class = "flag_property list"

text \<open>An instance has the single slot \<open>value\<close>, a Python integer.\<close>

record base_flags =
  val :: int

datatype error =
    AttributeError string
  | ReadOnlyError string
  | ValueError string

subsection \<open>Class creation\<close>

text \<open>
  \<open>__init_subclass__\<close> appends to \<open>flag_values\<close> the name of every member that
  \<open>inspect.getmembers\<close> reports as a \<open>_flag_property\<close>. The standard library returns
  the members sorted by name, strings compared code point by code point; the lists
  start empty in both classes.
\<close>

definition getmembers :: "flags_class \<Rightarrow> flag_property list" where
  "getmembers cls = sort_key name cls"

definition flag_values :: "flags_class \<Rightarrow> string list" where
  "flag_values cls = map name (getmembers cls)"

text \<open>\<open>getattr(cls, k)\<close> for a flag property, by name.\<close>

definition getattr_cls :: "flags_class \<Rightarrow> string \<Rightarrow> flag_property option" where
  "getattr_cls cls k = find (\<lambda>d. name d = k) cls"

text \<open>
  The other names that \<open>hasattr\<close> finds on an instance: what \<open>BaseFlags\<close> and its
  subclasses define besides flags, and what every Python object has. None of them can
  be assigned: the classes have \<open>__slots__ = ('value',)\<close> and so no instance
  dictionary, and \<open>object.__setattr__\<close> refuses the write.
\<close>

definition class_attrs :: "string list" where
  "class_attrs = [
    ''__slots__'', ''flag_values'', ''__repr__'', ''__init_subclass__'', ''__setattr__'',
    ''_from_value'', ''_has_flag'', ''_set_flag'', ''__iter__'', ''all'', ''none'',
    ''from_flags'', ''_all_flags_enabled'', ''to_google_flags'', ''__dict__'',
    ''__annotations__'', ''__module__'', ''__doc__'', ''__class__'', ''__delattr__'',
    ''__dir__'', ''__eq__'', ''__format__'', ''__ge__'', ''__getattribute__'', ''__gt__'',
    ''__hash__'', ''__init__'', ''__le__'', ''__lt__'', ''__ne__'', ''__new__'',
    ''__reduce__'', ''__reduce_ex__'', ''__sizeof__'', ''__str__'', ''__subclasshook__'']"

subsection \<open>Reading and writing flags\<close>

definition from_value :: "int \<Rightarrow> base_flags" where
  "from_value v = \<lparr>val = v\<rparr>"

definition has_flag :: "base_flags \<Rightarrow> int \<Rightarrow> bool" where
  "has_flag self f = ((val self AND f) = f)"

definition set_flag :: "base_flags \<Rightarrow> int \<Rightarrow> bool \<Rightarrow> base_flags" where
  "set_flag self f toggle =
     (if toggle then self\<lparr>val := val self OR f\<rparr>
      else self\<lparr>val := val self AND NOT f\<rparr>)"

text \<open>
  Reading a flag attribute of an instance (\<open>_flag_property.__get__\<close>); \<open>None\<close> when the
  name is not a flag property of the class.
\<close>

definition get_flag :: "flags_class \<Rightarrow> base_flags \<Rightarrow> string \<Rightarrow> bool option" where
  "get_flag cls self k = map_option (\<lambda>d. has_flag self (flag d)) (getattr_cls cls k)"

definition hasattr :: "flags_class \<Rightarrow> base_flags \<Rightarrow> string \<Rightarrow> bool" where
  "hasattr cls self k =
     (getattr_cls cls k \<noteq> None \<or> k = ''value'' \<or> k \<in> set class_attrs)"

text \<open>
  The objects a caller assigns or passes as keyword values: a \<open>bool\<close> or an \<open>int\<close>.
  Nothing in the code checks them. A flag setter tests the object for truth
  (\<open>if toggle\<close>); the slot \<open>value\<close>, declared \<open>int\<close>, stores the object itself, a Python
  \<open>bool\<close> being the integer 0 or 1.
\<close>

datatype pyval = PyBool bool | PyInt int

fun truthy :: "pyval \<Rightarrow> bool" where
  "truthy (PyBool b) = b"
| "truthy (PyInt n) = (n \<noteq> 0)"

fun int_of :: "pyval \<Rightarrow> int" where
  "int_of (PyBool b) = of_bool b"
| "int_of (PyInt n) = n"

text \<open>
  \<open>__setattr__\<close>: the guard of \<open>BaseFlags\<close>, then \<open>object.__setattr__\<close>, which calls
  \<open>_flag_property.__set__\<close> for a flag, stores into the slot for \<open>value\<close> and refuses
  every other name.
\<close>

definition setattr :: "flags_class \<Rightarrow> base_flags \<Rightarrow> string \<Rightarrow> pyval \<Rightarrow> error + base_flags" where
  "setattr cls self k v =
     (if \<not> hasattr cls self k \<and> k \<noteq> ''value'' then Inl (AttributeError k)
      else case getattr_cls cls k of
             Some d \<Rightarrow> Inr (set_flag self (flag d) (truthy v))
           | None \<Rightarrow>
               if k = ''value'' then Inr (self\<lparr>val := int_of v\<rparr>)
               else Inl (ReadOnlyError k))"

text \<open>\<open>__dict__\<close> and \<open>__iter__\<close>: one pair per name of \<open>flag_values\<close>, in that order.\<close>

definition iter :: "flags_class \<Rightarrow> base_flags \<Rightarrow> (string \<times> bool) list" where
  "iter cls self =
     map (\<lambda>k. (k, has_flag self (flag (the (getattr_cls cls k))))) (flag_values cls)"

subsection \<open>Factory methods\<close>

text \<open>
  \<open>int(s, 2)\<close> on a string of binary digits; the empty string and any other character
  raise \<open>ValueError\<close>.
\<close>

definition int_base2 :: "string \<Rightarrow> error + int" where
  "int_base2 s =
     (if s = [] \<or> (\<exists>c \<in> set s. c \<noteq> CHR ''0'' \<and> c \<noteq> CHR ''1'') then Inl (ValueError s)
      else Inr (foldl (\<lambda>a c. 2 * a + (if c = CHR ''1'' then 1 else 0)) 0 s))"

definition all_flags :: "flags_class \<Rightarrow> error + base_flags" where
  "all_flags cls =
     (case int_base2 (replicate (length (flag_values cls)) CHR ''1'') of
        Inl e \<Rightarrow> Inl e
      | Inr v \<Rightarrow> Inr (from_value v))"

definition none :: "flags_class \<Rightarrow> base_flags" where
  "none cls = from_value 0"

fun from_flags_loop ::
  "flags_class \<Rightarrow> base_flags \<Rightarrow> (string \<times> pyval) list \<Rightarrow> error + base_flags" where
  "from_flags_loop cls self [] = Inr self"
| "from_flags_loop cls self ((k, v) # kw) =
     (if \<not> hasattr cls self k then Inl (AttributeError k)
      else case setattr cls self k v of
             Inl e \<Rightarrow> Inl e
           | Inr self' \<Rightarrow> from_flags_loop cls self' kw)"

definition from_flags :: "flags_class \<Rightarrow> (string \<times> pyval) list \<Rightarrow> error + base_flags" where
  "from_flags cls kw = from_flags_loop cls (from_value 0) kw"

subsection \<open>The encoder\<close>

definition all_flags_enabled :: "flags_class \<Rightarrow> base_flags \<Rightarrow> bool" where
  "all_flags_enabled cls self = (val self = push_bit (length (flag_values cls)) 1 - 1)"

text \<open>\<open>bin\<close>: an optional sign, \<open>0b\<close>, and the binary digits of the absolute value.\<close>

fun bin_digits :: "nat \<Rightarrow> string" where
  "bin_digits n =
     (if n < 2 then [if n = 0 then CHR ''0'' else CHR ''1'']
      else bin_digits (n div 2) @ [if even n then CHR ''0'' else CHR ''1''])"

declare bin_digits.simps [simp del]

definition bin :: "int \<Rightarrow> string" where
  "bin v = (if v < 0 then ''-0b'' else ''0b'') @ bin_digits (nat \<bar>v\<bar>)"

definition str_count :: "string \<Rightarrow> char \<Rightarrow> nat" where
  "str_count s c = length (filter (\<lambda>x. x = c) s)"

fun join :: "string \<Rightarrow> string list \<Rightarrow> string" where
  "join sep [] = []"
| "join sep [x] = x"
| "join sep (x # y # xs) = x @ sep @ join sep (y # xs)"

text \<open>
  \<open>len(self.flag_values) / 2\<close> is Python's true division; the comparison of the count
  with it is exact.
\<close>

definition to_google_flags :: "flags_class \<Rightarrow> base_flags \<Rightarrow> string option" where
  "to_google_flags cls self =
     (if val self = 0 \<or> all_flags_enabled cls self then None
      else if real (str_count (bin (val self)) CHR ''1'') > real (length (flag_values cls)) / 2
      then Some (''-('' @ join ''|'' (map (\<lambda>(k, v). doc (the (getattr_cls cls k)))
                                       (filter (\<lambda>(k, v). \<not> v) (iter cls self))) @ '')'')
      else Some (join ''|'' (map (\<lambda>(k, v). doc (the (getattr_cls cls k)))
                              (filter (\<lambda>(k, v). v) (iter cls self)))))"

subsection \<open>The two classes\<close>

definition Language :: flags_class where
  "Language = [
    \<lparr>name = ''arabic'', doc = ''lang_ar'', flag = 1\<rparr>,
    \<lparr>name = ''bulgarian'', doc = ''lang_bg'', flag = push_bit 1 1\<rparr>,
    \<lparr>name = ''catalan'', doc = ''lang_ca'', flag = push_bit 2 1\<rparr>,
    \<lparr>name = ''czech'', doc = ''lang_cs'', flag = push_bit 3 1\<rparr>,
    \<lparr>name = ''danish'', doc = ''lang_da'', flag = push_bit 4 1\<rparr>,
    \<lparr>name = ''german'', doc = ''lang_de'', flag = push_bit 5 1\<rparr>,
    \<lparr>name = ''greek'', doc = ''lang_el'', flag = push_bit 6 1\<rparr>,
    \<lparr>name = ''english'', doc = ''lang_en'', flag = push_bit 7 1\<rparr>,
    \<lparr>name = ''spanish'', doc = ''lang_es'', flag = push_bit 8 1\<rparr>,
    \<lparr>name = ''estonian'', doc = ''lang_et'', flag = push_bit 9 1\<rparr>,
    \<lparr>name = ''finnish'', doc = ''lang_fi'', flag = push_bit 10 1\<rparr>,
    \<lparr>name = ''french'', doc = ''lang_fr'', flag = push_bit 11 1\<rparr>,
    \<lparr>name = ''croatian'', doc = ''lang_hr'', flag = push_bit 12 1\<rparr>,
    \<lparr>name = ''hungarian'', doc = ''lang_hu'', flag = push_bit 13 1\<rparr>,
    \<lparr>name = ''indonesian'', doc = ''lang_id'', flag = push_bit 14 1\<rparr>,
    \<lparr>name = ''icelandic'', doc = ''lang_is'', flag = push_bit 15 1\<rparr>,
    \<lparr>name = ''italian'', doc = ''lang_it'', flag = push_bit 16 1\<rparr>,
    \<lparr>name = ''hebrew'', doc = ''lang_iw'', flag = push_bit 17 1\<rparr>,
    \<lparr>name = ''japanese'', doc = ''lang_ja'', flag = push_bit 18 1\<rparr>,
    \<lparr>name = ''korean'', doc = ''lang_ko'', flag = push_bit 19 1\<rparr>,
    \<lparr>name = ''lithuanian'', doc = ''lang_lt'', flag = push_bit 20 1\<rparr>,
    \<lparr>name = ''latvian'', doc = ''lang_lv'', flag = push_bit 21 1\<rparr>,
    \<lparr>name = ''dutch'', doc = ''lang_nl'', flag = push_bit 22 1\<rparr>,
    \<lparr>name = ''norwegian'', doc = ''lang_no'', flag = push_bit 23 1\<rparr>,
    \<lparr>name = ''polish'', doc = ''lang_pl'', flag = push_bit 24 1\<rparr>,
    \<lparr>name = ''portuguese'', doc = ''lang_pt'', flag = push_bit 25 1\<rparr>,
    \<lparr>name = ''romanian'', doc = ''lang_ro'', flag = push_bit 26 1\<rparr>,
    \<lparr>name = ''russian'', doc = ''lang_ru'', flag = push_bit 27 1\<rparr>,
    \<lparr>name = ''slovak'', doc = ''lang_sk'', flag = push_bit 28 1\<rparr>,
    \<lparr>name = ''slovenian'', doc = ''lang_sl'', flag = push_bit 29 1\<rparr>,
    \<lparr>name = ''serbian'', doc = ''lang_sr'', flag = push_bit 30 1\<rparr>,
    \<lparr>name = ''swedish'', doc = ''lang_sv'', flag = push_bit 31 1\<rparr>,
    \<lparr>name = ''turkish'', doc = ''lang_tr'', flag = push_bit 32 1\<rparr>,
    \<lparr>name = ''chinese_simplified'', doc = ''lang_zh-CN'', flag = push_bit 33 1\<rparr>,
    \<lparr>name = ''chinese_traditional'', doc = ''lang_zh-TW'', flag = push_bit 34 1\<rparr>]"

definition CountryCode :: flags_class where
  "CountryCode = [
    \<lparr>name = ''afghanistan'', doc = ''countryAF'', flag = push_bit 0 1\<rparr>,
    \<lparr>name = ''albania'', doc = ''countryAL'', flag = push_bit 1 1\<rparr>,
    \<lparr>name = ''algeria'', doc = ''countryDZ'', flag = push_bit 2 1\<rparr>,
    \<lparr>name = ''american_samoa'', doc = ''countryAS'', flag = push_bit 3 1\<rparr>,
    \<lparr>name = ''andorra'', doc = ''countryAD'', flag = push_bit 4 1\<rparr>,
    \<lparr>name = ''angola'', doc = ''countryAO'', flag = push_bit 5 1\<rparr>,
    \<lparr>name = ''anguilla'', doc = ''countryAI'', flag = push_bit 6 1\<rparr>,
    \<lparr>name = ''antarctica'', doc = ''countryAQ'', flag = push_bit 7 1\<rparr>,
    \<lparr>name = ''antigua_and_barbuda'', doc = ''countryAG'', flag = push_bit 8 1\<rparr>,
    \<lparr>name = ''argentina'', doc = ''countryAR'', flag = push_bit 9 1\<rparr>,
    \<lparr>name = ''armenia'', doc = ''countryAM'', flag = push_bit 10 1\<rparr>,
    \<lparr>name = ''aruba'', doc = ''countryAW'', flag = push_bit 11 1\<rparr>,
    \<lparr>name = ''australia'', doc = ''countryAU'', flag = push_bit 12 1\<rparr>,
    \<lparr>name = ''austria'', doc = ''countryAT'', flag = push_bit 13 1\<rparr>,
    \<lparr>name = ''azerbaijan'', doc = ''countryAZ'', flag = push_bit 14 1\<rparr>,
    \<lparr>name = ''bahamas'', doc = ''countryBS'', flag = push_bit 15 1\<rparr>,
    \<lparr>name = ''bahrain'', doc = ''countryBH'', flag = push_bit 16 1\<rparr>,
    \<lparr>name = ''bangladesh'', doc = ''countryBD'', flag = push_bit 17 1\<rparr>,
    \<lparr>name = ''barbados'', doc = ''countryBB'', flag = push_bit 18 1\<rparr>,
    \<lparr>name = ''belarus'', doc = ''countryBY'', flag = push_bit 19 1\<rparr>,
    \<lparr>name = ''belgium'', doc = ''countryBE'', flag = push_bit 20 1\<rparr>,
    \<lparr>name = ''belize'', doc = ''countryBZ'', flag = push_bit 21 1\<rparr>,
    \<lparr>name = ''benin'', doc = ''countryBJ'', flag = push_bit 22 1\<rparr>,
    \<lparr>name = ''bermuda'', doc = ''countryBM'', flag = push_bit 23 1\<rparr>,
    \<lparr>name = ''bhutan'', doc = ''countryBT'', flag = push_bit 24 1\<rparr>,
    \<lparr>name = ''bolivia'', doc = ''countryBO'', flag = push_bit 25 1\<rparr>,
    \<lparr>name = ''bosnia_and_herzegovina'', doc = ''countryBA'', flag = push_bit 26 1\<rparr>,
    \<lparr>name = ''botswana'', doc = ''countryBW'', flag = push_bit 27 1\<rparr>,
    \<lparr>name = ''bouvet_island'', doc = ''countryBV'', flag = push_bit 28 1\<rparr>,
    \<lparr>name = ''brazil'', doc = ''countryBR'', flag = push_bit 29 1\<rparr>,
    \<lparr>name = ''british_indian_ocean_territory'', doc = ''countryIO'', flag = push_bit 30 1\<rparr>,
    \<lparr>name = ''brunei_darussalam'', doc = ''countryBN'', flag = push_bit 31 1\<rparr>,
    \<lparr>name = ''bulgaria'', doc = ''countryBG'', flag = push_bit 32 1\<rparr>,
    \<lparr>name = ''burkina_faso'', doc = ''countryBF'', flag = push_bit 33 1\<rparr>,
    \<lparr>name = ''burundi'', doc = ''countryBI'', flag = push_bit 34 1\<rparr>,
    \<lparr>name = ''cambodia'', doc = ''countryKH'', flag = push_bit 35 1\<rparr>,
    \<lparr>name = ''cameroon'', doc = ''countryCM'', flag = push_bit 36 1\<rparr>,
    \<lparr>name = ''canada'', doc = ''countryCA'', flag = push_bit 37 1\<rparr>,
    \<lparr>name = ''cape_verde'', doc = ''countryCV'', flag = push_bit 38 1\<rparr>,
    \<lparr>name = ''cayman_islands'', doc = ''countryKY'', flag = push_bit 39 1\<rparr>,
    \<lparr>name = ''central_african_republic'', doc = ''countryCF'', flag = push_bit 40 1\<rparr>,
    \<lparr>name = ''chad'', doc = ''countryTD'', flag = push_bit 41 1\<rparr>,
    \<lparr>name = ''chile'', doc = ''countryCL'', flag = push_bit 42 1\<rparr>,
    \<lparr>name = ''china'', doc = ''countryCN'', flag = push_bit 43 1\<rparr>,
    \<lparr>name = ''christmas_island'', doc = ''countryCX'', flag = push_bit 44 1\<rparr>,
    \<lparr>name = ''cocos_keeling_islands'', doc = ''countryCC'', flag = push_bit 45 1\<rparr>,
    \<lparr>name = ''colombia'', doc = ''countryCO'', flag = push_bit 46 1\<rparr>,
    \<lparr>name = ''comoros'', doc = ''countryKM'', flag = push_bit 47 1\<rparr>,
    \<lparr>name = ''congo'', doc = ''countryCG'', flag = push_bit 48 1\<rparr>,
    \<lparr>name = ''_the_democratic_republic_of_the_congo'', doc = ''countryCD'', flag = push_bit 49 1\<rparr>,
    \<lparr>name = ''cook_islands'', doc = ''countryCK'', flag = push_bit 50 1\<rparr>,
    \<lparr>name = ''costa_rica'', doc = ''countryCR'', flag = push_bit 51 1\<rparr>,
    \<lparr>name = ''cote_divoire'', doc = ''countryCI'', flag = push_bit 52 1\<rparr>,
    \<lparr>name = ''croatia_hrvatska'', doc = ''countryHR'', flag = push_bit 53 1\<rparr>,
    \<lparr>name = ''cuba'', doc = ''countryCU'', flag = push_bit 54 1\<rparr>,
    \<lparr>name = ''cyprus'', doc = ''countryCY'', flag = push_bit 55 1\<rparr>,
    \<lparr>name = ''czech_republic'', doc = ''countryCZ'', flag = push_bit 56 1\<rparr>,
    \<lparr>name = ''denmark'', doc = ''countryDK'', flag = push_bit 57 1\<rparr>,
    \<lparr>name = ''djibouti'', doc = ''countryDJ'', flag = push_bit 58 1\<rparr>,
    \<lparr>name = ''dominica'', doc = ''countryDM'', flag = push_bit 59 1\<rparr>,
    \<lparr>name = ''dominican_republic'', doc = ''countryDO'', flag = push_bit 60 1\<rparr>,
    \<lparr>name = ''east_timor'', doc = ''countryTP'', flag = push_bit 61 1\<rparr>,
    \<lparr>name = ''ecuador'', doc = ''countryEC'', flag = push_bit 62 1\<rparr>,
    \<lparr>name = ''egypt'', doc = ''countryEG'', flag = push_bit 63 1\<rparr>,
    \<lparr>name = ''el_salvador'', doc = ''countrySV'', flag = push_bit 64 1\<rparr>,
    \<lparr>name = ''equatorial_guinea'', doc = ''countryGQ'', flag = push_bit 65 1\<rparr>,
    \<lparr>name = ''eritrea'', doc = ''countryER'', flag = push_bit 66 1\<rparr>,
    \<lparr>name = ''estonia'', doc = ''countryEE'', flag = push_bit 67 1\<rparr>,
    \<lparr>name = ''ethiopia'', doc = ''countryET'', flag = push_bit 68 1\<rparr>,
    \<lparr>name = ''european_union'', doc = ''countryEU'', flag = push_bit 69 1\<rparr>,
    \<lparr>name = ''falkland_islands_malvinas'', doc = ''countryFK'', flag = push_bit 70 1\<rparr>,
    \<lparr>name = ''faroe_islands'', doc = ''countryFO'', flag = push_bit 71 1\<rparr>,
    \<lparr>name = ''fiji'', doc = ''countryFJ'', flag = push_bit 72 1\<rparr>,
    \<lparr>name = ''finland'', doc = ''countryFI'', flag = push_bit 73 1\<rparr>,
    \<lparr>name = ''france'', doc = ''countryFR'', flag = push_bit 74 1\<rparr>,
    \<lparr>name = ''_metropolitan_france'', doc = ''countryFX'', flag = push_bit 75 1\<rparr>,
    \<lparr>name = ''french_guiana'', doc = ''countryGF'', flag = push_bit 76 1\<rparr>,
    \<lparr>name = ''french_polynesia'', doc = ''countryPF'', flag = push_bit 77 1\<rparr>,
    \<lparr>name = ''french_southern_territories'', doc = ''countryTF'', flag = push_bit 78 1\<rparr>,
    \<lparr>name = ''gabon'', doc = ''countryGA'', flag = push_bit 79 1\<rparr>,
    \<lparr>name = ''gambia'', doc = ''countryGM'', flag = push_bit 80 1\<rparr>,
    \<lparr>name = ''georgia'', doc = ''countryGE'', flag = push_bit 81 1\<rparr>,
    \<lparr>name = ''germany'', doc = ''countryDE'', flag = push_bit 82 1\<rparr>,
    \<lparr>name = ''ghana'', doc = ''countryGH'', flag = push_bit 83 1\<rparr>,
    \<lparr>name = ''gibraltar'', doc = ''countryGI'', flag = push_bit 84 1\<rparr>,
    \<lparr>name = ''greece'', doc = ''countryGR'', flag = push_bit 85 1\<rparr>,
    \<lparr>name = ''greenland'', doc = ''countryGL'', flag = push_bit 86 1\<rparr>,
    \<lparr>name = ''grenada'', doc = ''countryGD'', flag = push_bit 87 1\<rparr>,
    \<lparr>name = ''guadeloupe'', doc = ''countryGP'', flag = push_bit 88 1\<rparr>,
    \<lparr>name = ''guam'', doc = ''countryGU'', flag = push_bit 89 1\<rparr>,
    \<lparr>name = ''guatemala'', doc = ''countryGT'', flag = push_bit 90 1\<rparr>,
    \<lparr>name = ''guinea'', doc = ''countryGN'', flag = push_bit 91 1\<rparr>,
    \<lparr>name = ''guinea_bissau'', doc = ''countryGW'', flag = push_bit 92 1\<rparr>,
    \<lparr>name = ''guyana'', doc = ''countryGY'', flag = push_bit 93 1\<rparr>,
    \<lparr>name = ''haiti'', doc = ''countryHT'', flag = push_bit 94 1\<rparr>,
    \<lparr>name = ''heard_island_and_mcdonald_islands'', doc = ''countryHM'', flag = push_bit 95 1\<rparr>,
    \<lparr>name = ''holy_see_vatican_city_state'', doc = ''countryVA'', flag = push_bit 96 1\<rparr>,
    \<lparr>name = ''honduras'', doc = ''countryHN'', flag = push_bit 97 1\<rparr>,
    \<lparr>name = ''hong_kong'', doc = ''countryHK'', flag = push_bit 98 1\<rparr>,
    \<lparr>name = ''hungary'', doc = ''countryHU'', flag = push_bit 99 1\<rparr>,
    \<lparr>name = ''iceland'', doc = ''countryIS'', flag = push_bit 100 1\<rparr>,
    \<lparr>name = ''india'', doc = ''countryIN'', flag = push_bit 101 1\<rparr>,
    \<lparr>name = ''indonesia'', doc = ''countryID'', flag = push_bit 102 1\<rparr>,
    \<lparr>name = ''_islamic_republic_of_iran'', doc = ''countryIR'', flag = push_bit 103 1\<rparr>,
    \<lparr>name = ''iraq'', doc = ''countryIQ'', flag = push_bit 104 1\<rparr>,
    \<lparr>name = ''ireland'', doc = ''countryIE'', flag = push_bit 105 1\<rparr>,
    \<lparr>name = ''israel'', doc = ''countryIL'', flag = push_bit 106 1\<rparr>,
    \<lparr>name = ''italy'', doc = ''countryIT'', flag = push_bit 107 1\<rparr>,
    \<lparr>name = ''jamaica'', doc = ''countryJM'', flag = push_bit 108 1\<rparr>,
    \<lparr>name = ''japan'', doc = ''countryJP'', flag = push_bit 109 1\<rparr>,
    \<lparr>name = ''jordan'', doc = ''countryJO'', flag = push_bit 110 1\<rparr>,
    \<lparr>name = ''kazakhstan'', doc = ''countryKZ'', flag = push_bit 111 1\<rparr>,
    \<lparr>name = ''kenya'', doc = ''countryKE'', flag = push_bit 112 1\<rparr>,
    \<lparr>name = ''kiribati'', doc = ''countryKI'', flag = push_bit 113 1\<rparr>,
    \<lparr>name = ''_democratic_peoples_republic_of_korea'', doc = ''countryKP'', flag = push_bit 114 1\<rparr>,
    \<lparr>name = ''_republic_of_korea'', doc = ''countryKR'', flag = push_bit 115 1\<rparr>,
    \<lparr>name = ''kuwait'', doc = ''countryKW'', flag = push_bit 116 1\<rparr>,
    \<lparr>name = ''kyrgyzstan'', doc = ''countryKG'', flag = push_bit 117 1\<rparr>,
    \<lparr>name = ''lao_peoples_democratic_republic'', doc = ''countryLA'', flag = push_bit 118 1\<rparr>,
    \<lparr>name = ''latvia'', doc = ''countryLV'', flag = push_bit 119 1\<rparr>,
    \<lparr>name = ''lebanon'', doc = ''countryLB'', flag = push_bit 120 1\<rparr>,
    \<lparr>name = ''lesotho'', doc = ''countryLS'', flag = push_bit 121 1\<rparr>,
    \<lparr>name = ''liberia'', doc = ''countryLR'', flag = push_bit 122 1\<rparr>,
    \<lparr>name = ''libyan_arab_jamahiriya'', doc = ''countryLY'', flag = push_bit 123 1\<rparr>,
    \<lparr>name = ''liechtenstein'', doc = ''countryLI'', flag = push_bit 124 1\<rparr>,
    \<lparr>name = ''lithuania'', doc = ''countryLT'', flag = push_bit 125 1\<rparr>,
    \<lparr>name = ''luxembourg'', doc = ''countryLU'', flag = push_bit 126 1\<rparr>,
    \<lparr>name = ''macao'', doc = ''countryMO'', flag = push_bit 127 1\<rparr>,
    \<lparr>name = ''_the_former_yugosalv_republic_of_macedonia'', doc = ''countryMK'', flag = push_bit 128 1\<rparr>,
    \<lparr>name = ''madagascar'', doc = ''countryMG'', flag = push_bit 129 1\<rparr>,
    \<lparr>name = ''malawi'', doc = ''countryMW'', flag = push_bit 130 1\<rparr>,
    \<lparr>name = ''malaysia'', doc = ''countryMY'', flag = push_bit 131 1\<rparr>,
    \<lparr>name = ''maldives'', doc = ''countryMV'', flag = push_bit 132 1\<rparr>,
    \<lparr>name = ''mali'', doc = ''countryML'', flag = push_bit 133 1\<rparr>,
    \<lparr>name = ''malta'', doc = ''countryMT'', flag = push_bit 134 1\<rparr>,
    \<lparr>name = ''marshall_islands'', doc = ''countryMH'', flag = push_bit 135 1\<rparr>,
    \<lparr>name = ''martinique'', doc = ''countryMQ'', flag = push_bit 136 1\<rparr>,
    \<lparr>name = ''mauritania'', doc = ''countryMR'', flag = push_bit 137 1\<rparr>,
    \<lparr>name = ''mauritius'', doc = ''countryMU'', flag = push_bit 138 1\<rparr>,
    \<lparr>name = ''mayotte'', doc = ''countryYT'', flag = push_bit 139 1\<rparr>,
    \<lparr>name = ''mexico'', doc = ''countryMX'', flag = push_bit 140 1\<rparr>,
    \<lparr>name = ''_federated_states_of_micronesia'', doc = ''countryFM'', flag = push_bit 141 1\<rparr>,
    \<lparr>name = ''_republic_of_moldova'', doc = ''countryMD'', flag = push_bit 142 1\<rparr>,
    \<lparr>name = ''monaco'', doc = ''countryMC'', flag = push_bit 143 1\<rparr>,
    \<lparr>name = ''mongolia'', doc = ''countryMN'', flag = push_bit 144 1\<rparr>,
    \<lparr>name = ''montserrat'', doc = ''countryMS'', flag = push_bit 145 1\<rparr>,
    \<lparr>name = ''morocco'', doc = ''countryMA'', flag = push_bit 146 1\<rparr>,
    \<lparr>name = ''mozambique'', doc = ''countryMZ'', flag = push_bit 147 1\<rparr>,
    \<lparr>name = ''myanmar'', doc = ''countryMM'', flag = push_bit 148 1\<rparr>,
    \<lparr>name = ''namibia'', doc = ''countryNA'', flag = push_bit 149 1\<rparr>,
    \<lparr>name = ''nauru'', doc = ''countryNR'', flag = push_bit 150 1\<rparr>,
    \<lparr>name = ''nepal'', doc = ''countryNP'', flag = push_bit 151 1\<rparr>,
    \<lparr>name = ''netherlands'', doc = ''countryNL'', flag = push_bit 152 1\<rparr>,
    \<lparr>name = ''netherlands_antilles'', doc = ''countryAN'', flag = push_bit 153 1\<rparr>,
    \<lparr>name = ''new_caledonia'', doc = ''countryNC'', flag = push_bit 154 1\<rparr>,
    \<lparr>name = ''new_zealand'', doc = ''countryNZ'', flag = push_bit 155 1\<rparr>,
    \<lparr>name = ''nicaragua'', doc = ''countryNI'', flag = push_bit 156 1\<rparr>,
    \<lparr>name = ''niger'', doc = ''countryNE'', flag = push_bit 157 1\<rparr>,
    \<lparr>name = ''nigeria'', doc = ''countryNG'', flag = push_bit 158 1\<rparr>,
    \<lparr>name = ''niue'', doc = ''countryNU'', flag = push_bit 159 1\<rparr>,
    \<lparr>name = ''norfolk_island'', doc = ''countryNF'', flag = push_bit 160 1\<rparr>,
    \<lparr>name = ''northern_mariana_islands'', doc = ''countryMP'', flag = push_bit 161 1\<rparr>,
    \<lparr>name = ''norway'', doc = ''countryNO'', flag = push_bit 162 1\<rparr>,
    \<lparr>name = ''oman'', doc = ''countryOM'', flag = push_bit 163 1\<rparr>,
    \<lparr>name = ''pakistan'', doc = ''countryPK'', flag = push_bit 164 1\<rparr>,
    \<lparr>name = ''palau'', doc = ''countryPW'', flag = push_bit 165 1\<rparr>,
    \<lparr>name = ''palestinian_territory'', doc = ''countryPS'', flag = push_bit 166 1\<rparr>,
    \<lparr>name = ''panama'', doc = ''countryPA'', flag = push_bit 167 1\<rparr>,
    \<lparr>name = ''papua_new_guinea'', doc = ''countryPG'', flag = push_bit 168 1\<rparr>,
    \<lparr>name = ''paraguay'', doc = ''countryPY'', flag = push_bit 169 1\<rparr>,
    \<lparr>name = ''peru'', doc = ''countryPE'', flag = push_bit 170 1\<rparr>,
    \<lparr>name = ''philippines'', doc = ''countryPH'', flag = push_bit 171 1\<rparr>,
    \<lparr>name = ''pitcairn'', doc = ''countryPN'', flag = push_bit 172 1\<rparr>,
    \<lparr>name = ''poland'', doc = ''countryPL'', flag = push_bit 173 1\<rparr>,
    \<lparr>name = ''portugal'', doc = ''countryPT'', flag = push_bit 174 1\<rparr>,
    \<lparr>name = ''puerto_rico'', doc = ''countryPR'', flag = push_bit 175 1\<rparr>,
    \<lparr>name = ''qatar'', doc = ''countryQA'', flag = push_bit 176 1\<rparr>,
    \<lparr>name = ''reunion'', doc = ''countryRE'', flag = push_bit 177 1\<rparr>,
    \<lparr>name = ''romania'', doc = ''countryRO'', flag = push_bit 178 1\<rparr>,
    \<lparr>name = ''russian_federation'', doc = ''countryRU'', flag = push_bit 179 1\<rparr>,
    \<lparr>name = ''rwanda'', doc = ''countryRW'', flag = push_bit 180 1\<rparr>,
    \<lparr>name = ''saint_helena'', doc = ''countrySH'', flag = push_bit 181 1\<rparr>,
    \<lparr>name = ''saint_kitts_and_nevis'', doc = ''countryKN'', flag = push_bit 182 1\<rparr>,
    \<lparr>name = ''saint_lucia'', doc = ''countryLC'', flag = push_bit 183 1\<rparr>,
    \<lparr>name = ''saint_pierre_and_miquelon'', doc = ''countryPM'', flag = push_bit 184 1\<rparr>,
    \<lparr>name = ''saint_vincent_and_the_grenadines'', doc = ''countryVC'', flag = push_bit 185 1\<rparr>,
    \<lparr>name = ''samoa'', doc = ''countryWS'', flag = push_bit 186 1\<rparr>,
    \<lparr>name = ''san_marino'', doc = ''countrySM'', flag = push_bit 187 1\<rparr>,
    \<lparr>name = ''sao_tome_and_principe'', doc = ''countryST'', flag = push_bit 188 1\<rparr>,
    \<lparr>name = ''saudi_arabia'', doc = ''countrySA'', flag = push_bit 189 1\<rparr>,
    \<lparr>name = ''senegal'', doc = ''countrySN'', flag = push_bit 190 1\<rparr>,
    \<lparr>name = ''serbia_and_montenegro'', doc = ''countryCS'', flag = push_bit 191 1\<rparr>,
    \<lparr>name = ''seychelles'', doc = ''countrySC'', flag = push_bit 192 1\<rparr>,
    \<lparr>name = ''sierra_leone'', doc = ''countrySL'', flag = push_bit 193 1\<rparr>,
    \<lparr>name = ''singapore'', doc = ''countrySG'', flag = push_bit 194 1\<rparr>,
    \<lparr>name = ''slovakia'', doc = ''countrySK'', flag = push_bit 195 1\<rparr>,
    \<lparr>name = ''slovenia'', doc = ''countrySI'', flag = push_bit 196 1\<rparr>,
    \<lparr>name = ''solomon_islands'', doc = ''countrySB'', flag = push_bit 197 1\<rparr>,
    \<lparr>name = ''somalia'', doc = ''countrySO'', flag = push_bit 198 1\<rparr>,
    \<lparr>name = ''south_africa'', doc = ''countryZA'', flag = push_bit 199 1\<rparr>,
    \<lparr>name = ''south_georgia_and_the_south_sandwich_islands'', doc = ''countryGS'', flag = push_bit 200 1\<rparr>,
    \<lparr>name = ''spain'', doc = ''countryES'', flag = push_bit 201 1\<rparr>,
    \<lparr>name = ''sri_lanka'', doc = ''countryLK'', flag = push_bit 202 1\<rparr>,
    \<lparr>name = ''sudan'', doc = ''countrySD'', flag = push_bit 203 1\<rparr>,
    \<lparr>name = ''suriname'', doc = ''countrySR'', flag = push_bit 204 1\<rparr>,
    \<lparr>name = ''svalbard_and_jan_mayen'', doc = ''countrySJ'', flag = push_bit 205 1\<rparr>,
    \<lparr>name = ''swaziland'', doc = ''countrySZ'', flag = push_bit 206 1\<rparr>,
    \<lparr>name = ''sweden'', doc = ''countrySE'', flag = push_bit 207 1\<rparr>,
    \<lparr>name = ''switzerland'', doc = ''countryCH'', flag = push_bit 208 1\<rparr>,
    \<lparr>name = ''syrian_arab_republic'', doc = ''countrySY'', flag = push_bit 209 1\<rparr>,
    \<lparr>name = ''_province_of_china_taiwan'', doc = ''countryTW'', flag = push_bit 210 1\<rparr>,
    \<lparr>name = ''tajikistan'', doc = ''countryTJ'', flag = push_bit 211 1\<rparr>,
    \<lparr>name = ''_united_republic_of_tanzania'', doc = ''countryTZ'', flag = push_bit 212 1\<rparr>,
    \<lparr>name = ''thailand'', doc = ''countryTH'', flag = push_bit 213 1\<rparr>,
    \<lparr>name = ''togo'', doc = ''countryTG'', flag = push_bit 214 1\<rparr>,
    \<lparr>name = ''tokelau'', doc = ''countryTK'', flag = push_bit 215 1\<rparr>,
    \<lparr>name = ''tonga'', doc = ''countryTO'', flag = push_bit 216 1\<rparr>,
    \<lparr>name = ''trinidad_and_tobago'', doc = ''countryTT'', flag = push_bit 217 1\<rparr>,
    \<lparr>name = ''tunisia'', doc = ''countryTN'', flag = push_bit 218 1\<rparr>,
    \<lparr>name = ''turkey'', doc = ''countryTR'', flag = push_bit 219 1\<rparr>,
    \<lparr>name = ''turkmenistan'', doc = ''countryTM'', flag = push_bit 220 1\<rparr>,
    \<lparr>name = ''turks_and_caicos_islands'', doc = ''countryTC'', flag = push_bit 221 1\<rparr>,
    \<lparr>name = ''tuvalu'', doc = ''countryTV'', flag = push_bit 222 1\<rparr>,
    \<lparr>name = ''uganda'', doc = ''countryUG'', flag = push_bit 223 1\<rparr>,
    \<lparr>name = ''ukraine'', doc = ''countryUA'', flag = push_bit 224 1\<rparr>,
    \<lparr>name = ''united_arab_emirates'', doc = ''countryAE'', flag = push_bit 225 1\<rparr>,
    \<lparr>name = ''united_kingdom'', doc = ''countryUK'', flag = push_bit 226 1\<rparr>,
    \<lparr>name = ''united_states'', doc = ''countryUS'', flag = push_bit 227 1\<rparr>,
    \<lparr>name = ''united_states_minor_outlying_islands'', doc = ''countryUM'', flag = push_bit 228 1\<rparr>,
    \<lparr>name = ''uruguay'', doc = ''countryUY'', flag = push_bit 229 1\<rparr>,
    \<lparr>name = ''uzbekistan'', doc = ''countryUZ'', flag = push_bit 230 1\<rparr>,
    \<lparr>name = ''vanuatu'', doc = ''countryVU'', flag = push_bit 231 1\<rparr>,
    \<lparr>name = ''venezuela'', doc = ''countryVE'', flag = push_bit 232 1\<rparr>,
    \<lparr>name = ''vietnam'', doc = ''countryVN'', flag = push_bit 233 1\<rparr>,
    \<lparr>name = ''_british_virgin_islands'', doc = ''countryVG'', flag = push_bit 234 1\<rparr>,
    \<lparr>name = ''_us_virgin_islands'', doc = ''countryVI'', flag = push_bit 235 1\<rparr>,
    \<lparr>name = ''wallis_and_futuna'', doc = ''countryWF'', flag = push_bit 236 1\<rparr>,
    \<lparr>name = ''western_sahara'', doc = ''countryEH'', flag = push_bit 237 1\<rparr>,
    \<lparr>name = ''yemen'', doc = ''countryYE'', flag = push_bit 238 1\<rparr>,
    \<lparr>name = ''yugoslavia'', doc = ''countryYU'', flag = push_bit 239 1\<rparr>,
    \<lparr>name = ''zambia'', doc = ''countryZM'', flag = push_bit 240 1\<rparr>,
    \<lparr>name = ''zimbabwe'', doc = ''countryZW'', flag = push_bit 241 1\<rparr>]"


subsection \<open>Well-formed classes and instances\<close>

text \<open>
  What both class bodies satisfy: the names are distinct, the i-th declared flag returns
  \<open>1 << i\<close>, and no flag is called \<open>value\<close> or hides another attribute.
\<close>

fun bits_from :: "nat \<Rightarrow> flags_class \<Rightarrow> bool" where
  "bits_from i [] = True"
| "bits_from i (d # ds) = (flag d = push_bit i 1 \<and> bits_from (Suc i) ds)"

definition wf_class :: "flags_class \<Rightarrow> bool" where
  "wf_class cls =
     (distinct (map name cls) \<and> bits_from 0 cls \<and>
      list_all (\<lambda>d. name d \<noteq> ''value'' \<and> name d \<notin> set class_attrs) cls)"

text \<open>The tokens of both classes are distinct, non-empty, free of \<open>|\<close> and do not start with a minus sign.\<close>

definition wf_tokens :: "flags_class \<Rightarrow> bool" where
  "wf_tokens cls =
     (distinct (map doc cls) \<and>
      list_all (\<lambda>d. doc d \<noteq> [] \<and> CHR ''|'' \<notin> set (doc d) \<and> hd (doc d) \<noteq> CHR ''-'') cls)"

text \<open>An instance is in range when its value has no bit beyond the flags of its class.\<close>

definition in_range :: "flags_class \<Rightarrow> base_flags \<Rightarrow> bool" where
  "in_range cls self = (0 \<le> val self \<and> val self < 2 ^ length (flag_values cls))"

text \<open>The two lists the encoder chooses between, and the number of flags that are set.\<close>

definition set_count :: "flags_class \<Rightarrow> base_flags \<Rightarrow> nat" where
  "set_count cls self = length (filter snd (iter cls self))"

definition tokens_where :: "flags_class \<Rightarrow> base_flags \<Rightarrow> bool \<Rightarrow> string list" where
  "tokens_where cls self b =
     map (\<lambda>k. doc (the (getattr_cls cls k))) (map fst (filter (\<lambda>(k, v). v = b) (iter cls self)))"

definition positive_list :: "flags_class \<Rightarrow> base_flags \<Rightarrow> string" where
  "positive_list cls self = join ''|'' (tokens_where cls self True)"

definition negated_list :: "flags_class \<Rightarrow> base_flags \<Rightarrow> string" where
  "negated_list cls self = ''-('' @ join ''|'' (tokens_where cls self False) @ '')''"

definition is_negated :: "string \<Rightarrow> bool" where
  "is_negated s = (take 2 s = ''-('')"

text \<open>
  The instances a caller can build: by the factory methods \<open>none\<close>, \<open>all\<close> and
  \<open>from_flags\<close> (with any keyword arguments that it accepts), and from those by
  assigning registered flags.
\<close>

inductive reachable :: "flags_class \<Rightarrow> base_flags \<Rightarrow> bool" for cls :: flags_class where
  reach_none: "reachable cls (none cls)"
| reach_all: "all_flags cls = Inr a \<Longrightarrow> reachable cls a"
| reach_from_flags: "from_flags cls kw = Inr a \<Longrightarrow> reachable cls a"
| reach_setattr:
    "reachable cls a \<Longrightarrow> k \<in> set (flag_values cls) \<Longrightarrow> setattr cls a k v = Inr b
     \<Longrightarrow> reachable cls b"

text \<open>The same, with \<open>from_flags\<close> called on registered flag names only.\<close>

inductive reachable_by_flags :: "flags_class \<Rightarrow> base_flags \<Rightarrow> bool"
  for cls :: flags_class where
  by_none: "reachable_by_flags cls (none cls)"
| by_all: "all_flags cls = Inr a \<Longrightarrow> reachable_by_flags cls a"
| by_from_flags:
    "fst ` set kw \<subseteq> set (flag_values cls) \<Longrightarrow> from_flags cls kw = Inr a
     \<Longrightarrow> reachable_by_flags cls a"
| by_setattr:
    "reachable_by_flags cls a \<Longrightarrow> k \<in> set (flag_values cls) \<Longrightarrow> setattr cls a k v = Inr b
     \<Longrightarrow> reachable_by_flags cls b"

text \<open>
  The instance of the same class in which exactly the other flags are set: its value is
  the full pattern without the bits of the given value.
\<close>

definition complement :: "flags_class \<Rightarrow> base_flags \<Rightarrow> base_flags" where
  "complement cls self = from_value (push_bit (length (flag_values cls)) 1 - 1 - val self)"

subsection \<open>Decoding, as the round-trip property describes it\<close>

text \<open>
  The repository has no decoder. The round-trip property of the specification reads the
  produced string back: it strips the wrapper \<open>-(\<close> \<dots> \<open>)\<close> if present, splits on \<open>|\<close>,
  and maps each token to its flag name through the descriptor table. The instance is
  then rebuilt from the names: the named flags set on an empty instance for a positive
  list, the named flags cleared on a full instance for a negated list.
\<close>

fun split_on :: "char \<Rightarrow> string \<Rightarrow> string list" where
  "split_on c [] = [[]]"
| "split_on c (x # xs) =
     (if x = c then [] # split_on c xs
      else (case split_on c xs of [] \<Rightarrow> [[x]] | y # ys \<Rightarrow> (x # y) # ys))"

definition spec_strip_wrapper :: "string \<Rightarrow> bool \<times> string" where
  "spec_strip_wrapper s =
     (if is_negated s \<and> last s = CHR '')'' then (True, butlast (drop 2 s)) else (False, s))"

definition spec_token_name :: "flags_class \<Rightarrow> string \<Rightarrow> string option" where
  "spec_token_name cls t = map_option name (find (\<lambda>d. doc d = t) cls)"

fun spec_token_names :: "flags_class \<Rightarrow> string list \<Rightarrow> string list option" where
  "spec_token_names cls [] = Some []"
| "spec_token_names cls (t # ts) =
     (case spec_token_name cls t of
        None \<Rightarrow> None
      | Some n \<Rightarrow> map_option (Cons n) (spec_token_names cls ts))"

definition spec_decode_names :: "flags_class \<Rightarrow> string \<Rightarrow> (bool \<times> string list) option" where
  "spec_decode_names cls s =
     (case spec_strip_wrapper s of
        (negated, body) \<Rightarrow> map_option (Pair negated) (spec_token_names cls (split_on CHR ''|'' body)))"

definition spec_decode :: "flags_class \<Rightarrow> string \<Rightarrow> base_flags option" where
  "spec_decode cls s =
     (case spec_decode_names cls s of
        None \<Rightarrow> None
      | Some (negated, names) \<Rightarrow>
          (if negated then
             (case all_flags cls of
                Inl e \<Rightarrow> None
              | Inr a \<Rightarrow>
                  (case from_flags_loop cls a (map (\<lambda>n. (n, PyBool False)) names) of
                     Inl e \<Rightarrow> None
                   | Inr b \<Rightarrow> Some b))
           else
             (case from_flags cls (map (\<lambda>n. (n, PyBool True)) names) of
                Inl e \<Rightarrow> None
              | Inr b \<Rightarrow> Some b)))"

section \<open>Properties\<close>

subsection \<open>Members, lookups and bits\<close>

lemma length_flag_values: "length (flag_values cls) = length cls"
  by (simp add: flag_values_def getmembers_def)

lemma has_flag_bit: "has_flag self (2 ^ i) = bit (val self) i"
proof -
  have "(val self AND 2 ^ i = 2 ^ i) = bit (val self) i" (is "?l = ?r")
  proof
    assume ?l
    then have "bit (val self AND 2 ^ i) i = bit (2 ^ i :: int) i" by simp
    then show ?r by (simp add: bit_simps)
  next
    assume ?r
    then show ?l by (intro bit_eqI) (auto simp: bit_simps)
  qed
  then show ?thesis by (simp add: has_flag_def)
qed
lemma bits_from_nth: "bits_from i cls \<Longrightarrow> j < length cls \<Longrightarrow> flag (cls ! j) = 2 ^ (i + j)"
  by (induction i cls arbitrary: j rule: bits_from.induct) (auto simp: nth_Cons split: nat.splits)
lemma length_filter_getmembers:
  "length (filter P (getmembers cls)) = length (filter P cls)"
  by (simp add: getmembers_def filter_sort)
lemma set_getmembers: "set (getmembers cls) = set cls"
  by (simp add: getmembers_def)

lemma find_distinct_name:
  "distinct (map name cls) \<Longrightarrow> d \<in> set cls \<Longrightarrow> find (\<lambda>e. name e = name d) cls = Some d"
  by (induction cls) auto

lemma getattr_cls_member:
  "wf_class cls \<Longrightarrow> d \<in> set cls \<Longrightarrow> getattr_cls cls (name d) = Some d"
  by (simp add: getattr_cls_def wf_class_def find_distinct_name)

lemma getattr_cls_Some_name: "getattr_cls cls k = Some d \<Longrightarrow> name d = k \<and> d \<in> set cls"
  unfolding getattr_cls_def by (induction cls) (auto split: if_splits)

lemma getattr_cls_None: "(getattr_cls cls k = None) = (k \<notin> set (flag_values cls))"
  unfolding getattr_cls_def flag_values_def getmembers_def
  by (auto simp: find_None_iff)

text \<open>
  Every name of \<open>flag_values\<close> is a flag property of the class, so the lookups by name
  in \<open>iter\<close> and in the encoder always find their member.
\<close>

lemma getattr_cls_flag_values:
  "k \<in> set (flag_values cls) \<Longrightarrow> \<exists>d. getattr_cls cls k = Some d \<and> name d = k"
  using getattr_cls_None [of cls k] by (auto dest: getattr_cls_Some_name)

lemma iter_members:
  "wf_class cls \<Longrightarrow>
   iter cls self = map (\<lambda>d. (name d, has_flag self (flag d))) (getmembers cls)"
  by (simp add: iter_def flag_values_def getattr_cls_member set_getmembers)

lemma tokens_where_members:
  "wf_class cls \<Longrightarrow>
   tokens_where cls self b = map doc (filter (\<lambda>d. has_flag self (flag d) = b) (getmembers cls))"
  by (simp add: tokens_where_def iter_members filter_map comp_def getattr_cls_member set_getmembers
      cong: map_cong)

lemma set_flag_bit:
  "bit (val (set_flag self (2 ^ i) b)) j = (if j = i then b else bit (val self) j)"
  by (auto simp: set_flag_def bit_simps)

lemma int_base2_ones: "0 < n \<Longrightarrow> int_base2 (replicate n CHR ''1'') = Inr (2 ^ n - 1)"
proof -
  have "foldl (\<lambda>a c. 2 * a + (if c = CHR ''1'' then 1 else 0)) a (replicate n CHR ''1'') = (a + 1) * 2 ^ n - (1::int)" for a
    by (induction n arbitrary: a) (simp_all add: algebra_simps)
  from this [of 0] show "0 < n \<Longrightarrow> int_base2 (replicate n CHR ''1'') = Inr (2 ^ n - 1)"
    by (simp add: int_base2_def)
qed

lemma str_count_append: "str_count (s @ t) c = str_count s c + str_count t c"
  by (simp add: str_count_def)

lemma str_count_bin_digits_step:
  "str_count (bin_digits n) CHR ''1'' =
     (if odd n then 1 else 0) + (if n < 2 then 0 else str_count (bin_digits (n div 2)) CHR ''1'')"
  by (subst bin_digits.simps) (auto simp: str_count_def)

lemma str_count_bin_digits_0: "str_count (bin_digits 0) CHR ''1'' = 0"
  by (subst bin_digits.simps) (simp add: str_count_def)

lemma length_filter_bit_Suc:
  "length (filter (bit (n::nat)) [0..<Suc m]) =
     (if odd n then 1 else 0) + length (filter (bit (n div 2)) [0..<m])"
proof -
  have "[0..<Suc m] = 0 # map Suc [0..<m]"
    by (simp add: upt_conv_Cons map_Suc_upt del: upt_Suc)
  then show ?thesis
    by (simp add: filter_map comp_def bit_Suc bit_0 del: upt_Suc)
qed

lemma bin_digits_count:
  "n < 2 ^ m \<Longrightarrow> str_count (bin_digits n) CHR ''1'' = length (filter (bit n) [0..<m])"
proof (induction m arbitrary: n)
  case 0
  then show ?case by (simp add: str_count_bin_digits_0)
next
  case (Suc m)
  then have half: "n div 2 < 2 ^ m" by simp
  show ?case
  proof (cases "n < 2")
    case True
    then have "n div 2 = 0" by simp
    with Suc.IH [OF half] have "length (filter (bit (n div 2)) [0..<m]) = 0"
      by (simp add: str_count_bin_digits_0)
    with True show ?thesis
      by (simp only: length_filter_bit_Suc str_count_bin_digits_step [of n]) simp
  next
    case False
    with Suc.IH [OF half] show ?thesis
      by (simp only: length_filter_bit_Suc str_count_bin_digits_step [of n]) simp
  qed
qed

lemma bin_count:
  assumes "0 \<le> v" "v < 2 ^ m"
  shows "str_count (bin v) CHR ''1'' = length (filter (bit v) [0..<m])"
proof -
  from assms have "nat v < 2 ^ m"
    by (simp add: nat_less_iff)
  then have "str_count (bin_digits (nat v)) CHR ''1'' = length (filter (bit (nat v)) [0..<m])"
    by (rule bin_digits_count)
  moreover have "bit (nat v) = bit v"
    using assms(1) by (auto simp: bit_nat_iff fun_eq_iff)
  moreover have "str_count (''0b'' @ s) CHR ''1'' = str_count s CHR ''1''" for s
    by (simp add: str_count_def)
  ultimately show ?thesis
    using assms(1) by (simp add: bin_def)
qed

lemma length_filter_flags:
  assumes "bits_from 0 cls"
  shows "length (filter (\<lambda>d. has_flag self (flag d)) cls) = length (filter (bit (val self)) [0..<length cls])"
proof -
  have "filter (\<lambda>d. has_flag self (flag d)) (map ((!) cls) [0..<length cls])
        = map ((!) cls) (filter (bit (val self)) [0..<length cls])"
    unfolding filter_map comp_def
    by (rule arg_cong [where f = "map ((!) cls)"], rule filter_cong)
       (use assms in \<open>auto simp: bits_from_nth has_flag_bit\<close>)
  then show ?thesis
    by (simp add: map_nth)
qed

lemma set_count_bin:
  assumes "wf_class cls" "in_range cls self"
  shows "set_count cls self = str_count (bin (val self)) CHR ''1''"
proof -
  have "set_count cls self = length (filter (\<lambda>d. has_flag self (flag d)) (getmembers cls))"
    using assms(1) by (simp add: set_count_def iter_members filter_map comp_def)
  also have "\<dots> = length (filter (bit (val self)) [0..<length cls])"
    using assms(1) by (simp add: length_filter_getmembers length_filter_flags wf_class_def)
  also have "\<dots> = str_count (bin (val self)) CHR ''1''"
    using assms(2) bin_count [of "val self" "length cls"]
    by (simp add: in_range_def length_flag_values)
  finally show ?thesis .
qed


lemma to_google_flags_lists:
  "to_google_flags cls self =
     (if val self = 0 \<or> all_flags_enabled cls self then None
      else if length (flag_values cls) < 2 * str_count (bin (val self)) CHR ''1''
      then Some (negated_list cls self)
      else Some (positive_list cls self))"
proof -
  have h1: "(real (length (flag_values cls)) / 2 < real (str_count (bin (val self)) CHR ''1''))
      = (length (flag_values cls) < 2 * str_count (bin (val self)) CHR ''1'')"
    by (simp add: divide_less_eq) linarith
  have h2: "map (\<lambda>(k, v). doc (the (getattr_cls cls k))) (filter (\<lambda>(k, v). \<not> v) xs)
      = map (\<lambda>k. doc (the (getattr_cls cls k))) (map fst (filter (\<lambda>(k, v). v = False) xs))" for xs
    by (induction xs) auto
  have h3: "map (\<lambda>(k, v). doc (the (getattr_cls cls k))) (filter (\<lambda>(k, v). v) xs)
      = map (\<lambda>k. doc (the (getattr_cls cls k))) (map fst (filter (\<lambda>(k, v). v = True) xs))" for xs
    by (induction xs) auto
  show ?thesis
    unfolding to_google_flags_def negated_list_def positive_list_def tokens_where_def
    by (simp only: h1 h2 h3)
qed

lemma all_flags_nonempty:
  "cls \<noteq> [] \<Longrightarrow> all_flags cls = Inr (from_value (2 ^ length (flag_values cls) - 1))"
  by (simp add: all_flags_def length_flag_values int_base2_ones)

subsection \<open>Omission of the parameter\<close>

text \<open>
  Claim C2: \<open>to_google_flags\<close> returns \<open>None\<close> exactly when the value is 0 or equals
  \<open>2^N - 1\<close> for the \<open>N\<close> names of \<open>flag_values\<close>; \<open>none()\<close> encodes as \<open>None\<close>, and for a
  class with at least one flag \<open>all()\<close> returns the instance of value \<open>2^N - 1\<close>, which
  encodes as \<open>None\<close> too.
\<close>

theorem to_google_flags_None_iff:
  "((to_google_flags cls self = None) =
      (val self = 0 \<or> val self = 2 ^ length (flag_values cls) - 1))
   \<and> to_google_flags cls (none cls) = None
   \<and> (cls \<noteq> [] \<longrightarrow>
        (\<exists>a. all_flags cls = Inr a \<and> val a = 2 ^ length (flag_values cls) - 1
             \<and> to_google_flags cls a = None))"
  by (simp add: to_google_flags_lists all_flags_enabled_def none_def from_value_def
      all_flags_nonempty)

theorem to_google_flags_None_iff_witness:
  "Language \<noteq> []
   \<and> to_google_flags Language (none Language) = None
   \<and> (\<exists>a. all_flags Language = Inr a \<and> val a = 2 ^ 35 - 1 \<and> to_google_flags Language a = None)"
proof -
  have "Language \<noteq> []" "length (flag_values Language) = 35"
    by (simp_all add: Language_def length_flag_values)
  with to_google_flags_None_iff [of Language "none Language"] show ?thesis
    by simp
qed

subsection \<open>Counting the flags that are set\<close>

lemma set_count_bits:
  assumes "wf_class cls"
  shows "set_count cls self = length (filter (bit (val self)) [0..<length cls])"
proof -
  have "set_count cls self = length (filter (\<lambda>d. has_flag self (flag d)) (getmembers cls))"
    using assms by (simp add: set_count_def iter_members filter_map comp_def)
  also have "\<dots> = length (filter (bit (val self)) [0..<length cls])"
    using assms by (simp add: length_filter_getmembers length_filter_flags wf_class_def)
  finally show ?thesis .
qed

lemma length_tokens_where_True:
  "wf_class cls \<Longrightarrow> length (tokens_where cls self True) = set_count cls self"
  by (simp add: tokens_where_def set_count_def iter_members filter_map comp_def)

lemma length_tokens_where_False:
  assumes "wf_class cls"
  shows "length (tokens_where cls self False) = length cls - set_count cls self"
proof -
  have "length (filter snd (iter cls self)) + length (filter (\<lambda>p. \<not> snd p) (iter cls self))
        = length (iter cls self)"
    by (rule sum_length_filter_compl)
  moreover have "length (iter cls self) = length cls"
    by (simp add: iter_def length_flag_values)
  moreover have "length (tokens_where cls self False) = length (filter (\<lambda>p. \<not> snd p) (iter cls self))"
    by (simp add: tokens_where_def split_def)
  ultimately show ?thesis
    by (simp add: set_count_def)
qed

lemma set_count_zero:
  assumes "wf_class cls" "in_range cls self" "set_count cls self = 0"
  shows "val self = 0"
proof (rule bit_eqI)
  fix i
  have "\<not> bit (val self) i"
  proof (cases "i < length cls")
    case True
    from assms(1,3) have "filter (bit (val self)) [0..<length cls] = []"
      by (simp add: set_count_bits)
    with True show ?thesis
      by (auto simp: filter_empty_conv)
  next
    case False
    then have le: "(2::int) ^ length cls \<le> 2 ^ i"
      by (simp add: power_increasing)
    from assms(2) have "0 \<le> val self" and lt: "val self < 2 ^ length cls"
      by (simp_all add: in_range_def length_flag_values)
    moreover from lt le have "val self < 2 ^ i"
      by (rule less_le_trans)
    ultimately show ?thesis
      by (simp add: bit_iff_odd)
  qed
  then show "bit (val self) i = bit (0::int) i"
    by simp
qed

lemma set_count_full:
  assumes "wf_class cls"
  shows "set_count cls \<lparr>val = 2 ^ length cls - 1\<rparr> = length cls"
proof -
  have "bit (2 ^ length cls - 1 :: int) i = (i < length cls)" for i
    by (simp add: bit_mask_iff flip: mask_eq_exp_minus_1)
  then have "filter (bit (2 ^ length cls - 1 :: int)) [0..<length cls] = [0..<length cls]"
    by (simp add: filter_id_conv)
  with assms show ?thesis
    by (simp add: set_count_bits)
qed

lemma partial_not_extreme:
  assumes "wf_class cls" "in_range cls self"
    and "0 < set_count cls self" "set_count cls self < length (flag_values cls)"
  shows "val self \<noteq> 0 \<and> \<not> all_flags_enabled cls self"
proof -
  have "val self \<noteq> 0"
  proof
    assume "val self = 0"
    then have "set_count cls self = 0"
      using assms(1) by (simp add: set_count_bits)
    with assms(3) show False by simp
  qed
  moreover have "\<not> all_flags_enabled cls self"
  proof
    assume "all_flags_enabled cls self"
    then have "self = \<lparr>val = 2 ^ length cls - 1\<rparr>"
      by (simp add: all_flags_enabled_def length_flag_values)
    then have "set_count cls self = length cls"
      using set_count_full [OF assms(1)] by simp
    with assms(4) show False by (simp add: length_flag_values)
  qed
  ultimately show ?thesis ..
qed

subsection \<open>The shape of the two lists\<close>

lemma tokens_where_docs:
  "t \<in> set (tokens_where cls self b) \<Longrightarrow> t \<in> doc ` set cls"
proof -
  assume "t \<in> set (tokens_where cls self b)"
  then obtain k where k: "k \<in> set (flag_values cls)" and t: "t = doc (the (getattr_cls cls k))"
    by (auto simp: tokens_where_def iter_def)
  from k obtain d where "getattr_cls cls k = Some d"
    using getattr_cls_None [of cls k] by auto
  with t show ?thesis
    by (auto dest: getattr_cls_Some_name)
qed

lemma hd_join: "xs \<noteq> [] \<Longrightarrow> hd xs \<noteq> [] \<Longrightarrow> hd (join sep xs) = hd (hd xs)"
  by (induction sep xs rule: join.induct) auto

lemma join_nonempty: "xs \<noteq> [] \<Longrightarrow> hd xs \<noteq> [] \<Longrightarrow> join sep xs \<noteq> []"
  by (induction sep xs rule: join.induct) auto

lemma positive_list_shape:
  assumes "list_all (\<lambda>d. doc d \<noteq> [] \<and> CHR ''|'' \<notin> set (doc d) \<and> hd (doc d) \<noteq> CHR ''-'') cls"
    and "tokens_where cls self True \<noteq> []"
  shows "positive_list cls self \<noteq> [] \<and> \<not> is_negated (positive_list cls self)"
proof -
  let ?ts = "tokens_where cls self True"
  from assms(2) have "hd ?ts \<in> set ?ts" by simp
  then have "hd ?ts \<in> doc ` set cls" by (rule tokens_where_docs)
  with assms(1) have hd: "hd ?ts \<noteq> []" "hd (hd ?ts) \<noteq> CHR ''-''"
    by (auto simp: list_all_iff)
  with assms(2) have "positive_list cls self \<noteq> []" "hd (positive_list cls self) \<noteq> CHR ''-''"
    by (simp_all add: positive_list_def join_nonempty hd_join)
  then show ?thesis
    by (cases "positive_list cls self") (auto simp: is_negated_def)
qed

lemma negated_list_shape: "negated_list cls self \<noteq> [] \<and> is_negated (negated_list cls self)"
  by (simp add: negated_list_def is_negated_def)

subsection \<open>The class \<open>Language\<close>\<close>

lemma wf_class_Language: "wf_class Language"
  by code_simp

lemma wf_tokens_Language: "wf_tokens Language"
  by code_simp

lemma length_flag_values_Language: "length (flag_values Language) = 35"
  by (simp add: length_flag_values Language_def)

subsection \<open>Choice between the two lists\<close>




subsection \<open>Order of iteration\<close>

lemma map_insort_key: "map f (insort_key f x xs) = insort (f x) (map f xs)"
  by (induction xs) simp_all

lemma flag_values_sort: "flag_values cls = sort (map name cls)"
  unfolding flag_values_def getmembers_def
  by (induction cls) (simp_all add: map_insort_key)

lemma get_flag_member:
  "wf_class cls \<Longrightarrow> d \<in> set cls \<Longrightarrow> get_flag cls self (name d) = Some (has_flag self (flag d))"
  by (simp add: get_flag_def getattr_cls_member)

text \<open>
  Claim C4, as the code has it: iteration produces one pair per name of \<open>flag_values\<close>,
  each with the value that reading the flag gives, in ascending order of the names (the
  order of \<open>inspect.getmembers\<close>). Whatever \<open>to_google_flags\<close> returns is joined from the
  tokens of the set flags, or of the unset flags, taken from the members sorted by name,
  so its tokens follow that order. With only \<open>english\<close> and \<open>french\<close> set the result is
  \<open>lang_en|lang_fr\<close>.
\<close>

theorem iter_name_order:
  assumes "wf_class cls"
  shows "map fst (iter cls self) = sort (map name cls)
       \<and> (\<forall>(k, v) \<in> set (iter cls self). get_flag cls self k = Some v)
       \<and> tokens_where cls self b
            = map doc (filter (\<lambda>d. has_flag self (flag d) = b) (sort_key name cls))
       \<and> to_google_flags cls self =
           (if val self = 0 \<or> all_flags_enabled cls self then None
            else if length (flag_values cls) < 2 * str_count (bin (val self)) CHR ''1''
            then Some (''-('' @ join ''|''
                   (map doc (filter (\<lambda>d. \<not> has_flag self (flag d)) (sort_key name cls))) @ '')'')
            else Some (join ''|''
                   (map doc (filter (\<lambda>d. has_flag self (flag d)) (sort_key name cls)))))
       \<and> sorted (map name (sort_key name cls))
       \<and> to_google_flags Language \<lparr>val = 2 ^ 7 + 2 ^ 11\<rparr> = Some ''lang_en|lang_fr''"
proof -
  have "map fst (iter cls self) = sort (map name cls)"
    by (simp add: iter_def comp_def flag_values_sort)
  moreover have "\<forall>(k, v) \<in> set (iter cls self). get_flag cls self k = Some v"
    using assms by (auto simp: iter_members set_getmembers get_flag_member)
  moreover have "tokens_where cls self b
      = map doc (filter (\<lambda>d. has_flag self (flag d) = b) (sort_key name cls))"
    using assms by (simp add: tokens_where_members getmembers_def)
  moreover have "to_google_flags cls self =
      (if val self = 0 \<or> all_flags_enabled cls self then None
       else if length (flag_values cls) < 2 * str_count (bin (val self)) CHR ''1''
       then Some (''-('' @ join ''|''
              (map doc (filter (\<lambda>d. \<not> has_flag self (flag d)) (sort_key name cls))) @ '')'')
       else Some (join ''|''
              (map doc (filter (\<lambda>d. has_flag self (flag d)) (sort_key name cls)))))"
    using assms
    by (simp add: to_google_flags_lists negated_list_def positive_list_def tokens_where_members
        getmembers_def)
  moreover have "sorted (map name (sort_key name cls))"
    by (rule sorted_sort_key)
  moreover have "to_google_flags Language \<lparr>val = 2 ^ 7 + 2 ^ 11\<rparr> = Some ''lang_en|lang_fr''"
    by code_simp
  ultimately show ?thesis by blast
qed

theorem iter_name_order_witness:
  "wf_class Language
   \<and> map fst (iter Language \<lparr>val = 160\<rparr>) = sort (map name Language)
   \<and> to_google_flags Language \<lparr>val = 160\<rparr> = Some ''lang_en|lang_de''"
proof -
  have t: "map doc (filter (\<lambda>d. has_flag \<lparr>val = 160\<rparr> (flag d)) (sort_key name Language))
      = [''lang_en'', ''lang_de'']"
    by code_simp
  have c: "str_count (bin 160) CHR ''1'' = 2"
    by code_simp
  from iter_name_order [OF wf_class_Language, of "\<lparr>val = 160\<rparr>" True] t c show ?thesis
    by (simp add: wf_class_Language all_flags_enabled_def length_flag_values_Language)
qed

theorem iter_declaration_order_counterexample:
  "name (Language ! 5) = ''german'' \<and> flag (Language ! 5) = 2 ^ 5
   \<and> name (Language ! 7) = ''english'' \<and> flag (Language ! 7) = 2 ^ 7
   \<and> map fst (iter Language \<lparr>val = 2 ^ 5 + 2 ^ 7\<rparr>) \<noteq> map name Language
   \<and> to_google_flags Language \<lparr>val = 2 ^ 5 + 2 ^ 7\<rparr> = Some ''lang_en|lang_de''"
proof -
  have "name (Language ! 5) = ''german'' \<and> flag (Language ! 5) = 2 ^ 5
      \<and> name (Language ! 7) = ''english'' \<and> flag (Language ! 7) = 2 ^ 7"
    by (simp add: Language_def)
  moreover have "map fst (iter Language \<lparr>val = 2 ^ 5 + 2 ^ 7\<rparr>) ! 3 = ''chinese_simplified''"
    by code_simp
  moreover have "map name Language ! 3 = ''czech''"
    by (simp add: Language_def)
  moreover have "to_google_flags Language \<lparr>val = 2 ^ 5 + 2 ^ 7\<rparr> = Some ''lang_en|lang_de''"
    by code_simp
  ultimately show ?thesis by auto
qed

subsection \<open>Encoding an instance in range\<close>

lemma set_count_all:
  assumes "wf_class cls" "in_range cls self" "set_count cls self = length cls"
  shows "val self = 2 ^ length cls - 1"
proof (rule bit_eqI)
  fix i
  have full: "bit (2 ^ length cls - 1 :: int) i = (i < length cls)"
    by (simp add: bit_mask_iff flip: mask_eq_exp_minus_1)
  have "bit (val self) i = (i < length cls)"
  proof (cases "i < length cls")
    case True
    have "length (filter (bit (val self)) [0..<length cls])
        + length (filter (\<lambda>j. \<not> bit (val self) j) [0..<length cls]) = length [0..<length cls]"
      by (rule sum_length_filter_compl)
    with assms(1,3) have "filter (\<lambda>j. \<not> bit (val self) j) [0..<length cls] = []"
      by (simp add: set_count_bits)
    with True show ?thesis
      by (auto simp: filter_empty_conv)
  next
    case False
    then have le: "(2::int) ^ length cls \<le> 2 ^ i"
      by (simp add: power_increasing)
    from assms(2) have "0 \<le> val self" and lt: "val self < 2 ^ length cls"
      by (simp_all add: in_range_def length_flag_values)
    moreover from lt le have "val self < 2 ^ i"
      by (rule less_le_trans)
    ultimately show ?thesis
      using False by (simp add: bit_iff_odd)
  qed
  with full show "bit (val self) i = bit (2 ^ length cls - 1 :: int) i"
    by simp
qed

lemma set_count_le: "set_count cls self \<le> length cls"
proof -
  have "length (filter snd (iter cls self)) \<le> length (iter cls self)"
    by (rule length_filter_le)
  then show ?thesis
    by (simp add: set_count_def iter_def length_flag_values)
qed

lemma encoding_not_empty:
  assumes "wf_class cls" "wf_tokens cls" "in_range cls self"
  shows "to_google_flags cls self \<noteq> Some []
       \<and> (\<forall>s. to_google_flags cls self = Some s \<longrightarrow>
            (\<exists>ts. ts \<noteq> [] \<and> set ts \<subseteq> doc ` set cls
               \<and> (s = join ''|'' ts \<or> s = ''-('' @ join ''|'' ts @ '')'')))"
proof (cases "val self = 0 \<or> all_flags_enabled cls self")
  case True
  then show ?thesis
    by (simp add: to_google_flags_lists)
next
  case False
  then have nz: "0 < set_count cls self"
    using set_count_zero [OF assms(1,3)] by auto
  from False have "set_count cls self \<noteq> length cls"
    using set_count_all [OF assms(1,3)]
    by (auto simp: all_flags_enabled_def length_flag_values)
  then have nf: "set_count cls self < length cls"
    using set_count_le [of cls self] by simp
  from nz assms(1) have pos: "tokens_where cls self True \<noteq> []"
    using length_tokens_where_True [of cls self] by auto
  from nf assms(1) have neg: "tokens_where cls self False \<noteq> []"
    using length_tokens_where_False [of cls self] by auto
  have sub: "set (tokens_where cls self b) \<subseteq> doc ` set cls" for b
    by (auto dest: tokens_where_docs)
  from pos assms(2) have "positive_list cls self \<noteq> []"
    using positive_list_shape [of cls self] by (simp add: wf_tokens_def)
  moreover have "negated_list cls self \<noteq> []"
    by (simp add: negated_list_shape)
  ultimately show ?thesis
    using False pos neg sub
    by (auto simp: to_google_flags_lists positive_list_def negated_list_def)
qed

subsection \<open>Assigning a flag\<close>

lemma member_index:
  assumes "wf_class cls" "d \<in> set cls"
  obtains i where "i < length cls" "d = cls ! i" "flag d = 2 ^ i"
proof -
  from assms(2) obtain i where i: "i < length cls" "d = cls ! i"
    by (auto simp: in_set_conv_nth)
  moreover from assms(1) i have "flag d = 2 ^ i"
    using bits_from_nth [of 0 cls i] by (simp add: wf_class_def)
  ultimately show thesis by (rule that)
qed

lemma has_flag_set_flag:
  assumes "wf_class cls" "d \<in> set cls" "e \<in> set cls"
  shows "has_flag (set_flag self (flag d) b) (flag e)
       = (if name e = name d then b else has_flag self (flag e))"
proof -
  from assms(1,2) obtain i where i: "i < length cls" "d = cls ! i" "flag d = 2 ^ i"
    by (rule member_index)
  from assms(1,3) obtain j where j: "j < length cls" "e = cls ! j" "flag e = 2 ^ j"
    by (rule member_index)
  from assms(1) have "distinct (map name cls)"
    by (simp add: wf_class_def)
  with i(1) j(1) have "(map name cls ! j = map name cls ! i) = (j = i)"
    by (simp only: nth_eq_iff_index_eq length_map)
  with i j have "(name e = name d) = (j = i)"
    by simp
  then show ?thesis
    by (simp add: i(3) j(3) has_flag_bit set_flag_bit)
qed

lemma hasattr_member: "k \<in> set (flag_values cls) \<Longrightarrow> hasattr cls self k"
  by (simp add: hasattr_def getattr_cls_None)

lemma setattr_member:
  "wf_class cls \<Longrightarrow> d \<in> set cls \<Longrightarrow>
   setattr cls self (name d) v = Inr (set_flag self (flag d) (truthy v))"
  by (simp add: setattr_def hasattr_def getattr_cls_member)

lemma flag_values_set: "set (flag_values cls) = name ` set cls"
  by (simp add: flag_values_def set_getmembers)

text \<open>
  Claim C10: assigning \<open>b\<close> to a registered flag \<open>n\<close> succeeds; afterwards reading \<open>n\<close>
  gives \<open>b\<close> and reading any other registered flag gives what it gave before.
\<close>

theorem setattr_frame:
  assumes "wf_class cls" "n \<in> set (flag_values cls)"
  shows "\<exists>self'. setattr cls self n (PyBool b) = Inr self'
           \<and> get_flag cls self' n = Some b
           \<and> (\<forall>m \<in> set (flag_values cls). m \<noteq> n \<longrightarrow>
                 get_flag cls self' m = get_flag cls self m)"
proof -
  from assms(2) obtain d where d: "d \<in> set cls" "n = name d"
    by (auto simp: flag_values_set)
  let ?self' = "set_flag self (flag d) b"
  have "setattr cls self n (PyBool b) = Inr ?self'"
    using assms(1) d by (simp add: setattr_member)
  moreover have "get_flag cls ?self' n = Some b"
    using assms(1) d by (simp add: get_flag_member has_flag_set_flag)
  moreover have "get_flag cls ?self' m = get_flag cls self m"
    if "m \<in> set (flag_values cls)" "m \<noteq> n" for m
  proof -
    from that(1) obtain e where e: "e \<in> set cls" "m = name e"
      by (auto simp: flag_values_set)
    with that(2) d assms(1) show ?thesis
      by (simp add: get_flag_member has_flag_set_flag)
  qed
  ultimately show ?thesis by blast
qed

theorem setattr_frame_witness:
  "wf_class Language \<and> ''english'' \<in> set (flag_values Language)
   \<and> setattr Language \<lparr>val = 2 ^ 11\<rparr> ''english'' (PyBool True) = Inr \<lparr>val = 2 ^ 7 + 2 ^ 11\<rparr>
   \<and> get_flag Language \<lparr>val = 2 ^ 7 + 2 ^ 11\<rparr> ''english'' = Some True
   \<and> get_flag Language \<lparr>val = 2 ^ 7 + 2 ^ 11\<rparr> ''french'' = get_flag Language \<lparr>val = 2 ^ 11\<rparr> ''french''"
proof -
  have m: "''english'' \<in> set (flag_values Language)" "''french'' \<in> set (flag_values Language)"
    by (simp_all add: flag_values_set Language_def)
  have s: "setattr Language \<lparr>val = 2 ^ 11\<rparr> ''english'' (PyBool True) = Inr \<lparr>val = 2 ^ 7 + 2 ^ 11\<rparr>"
    by code_simp
  from setattr_frame [OF wf_class_Language m(1), of "\<lparr>val = 2 ^ 11\<rparr>" True] m s
  show ?thesis
    by (auto simp: wf_class_Language)
qed

subsection \<open>Construction from named flags\<close>

lemma has_flag_zero: "has_flag (from_value 0) (2 ^ i) = False"
  by (simp add: has_flag_bit from_value_def)

lemma from_flags_loop_True:
  assumes "wf_class cls" "set S \<subseteq> set (flag_values cls)"
  shows "\<exists>self'. from_flags_loop cls self (map (\<lambda>n. (n, PyBool True)) S) = Inr self'
           \<and> (\<forall>e \<in> set cls. has_flag self' (flag e) = (name e \<in> set S \<or> has_flag self (flag e)))"
  using assms(2)
proof (induction S arbitrary: self)
  case Nil
  then show ?case by simp
next
  case (Cons n S)
  then obtain d where d: "d \<in> set cls" "n = name d"
    by (auto simp: flag_values_set)
  let ?s = "set_flag self (flag d) True"
  from Cons obtain self' where loop: "from_flags_loop cls ?s (map (\<lambda>n. (n, PyBool True)) S) = Inr self'"
    and bits: "\<forall>e \<in> set cls. has_flag self' (flag e) = (name e \<in> set S \<or> has_flag ?s (flag e))"
    by (metis list.set_intros(2) subset_code(1))
  have "hasattr cls self n"
    using Cons.prems by (simp add: hasattr_member)
  with loop have "from_flags_loop cls self (map (\<lambda>n. (n, PyBool True)) (n # S)) = Inr self'"
    using assms(1) d by (simp add: setattr_member)
  moreover have "\<forall>e \<in> set cls. has_flag self' (flag e) = (name e \<in> set (n # S) \<or> has_flag self (flag e))"
    using bits assms(1) d by (auto simp: has_flag_set_flag)
  ultimately show ?case by blast
qed

text \<open>
  Claim C6: \<open>from_flags\<close> with each name of a set \<open>S\<close> of registered flag names mapped to
  true returns an instance on which a registered flag reads true exactly when its name is
  in \<open>S\<close>.
\<close>

theorem from_flags_get:
  assumes "wf_class cls" "set S \<subseteq> set (flag_values cls)"
  shows "\<exists>self'. from_flags cls (map (\<lambda>n. (n, PyBool True)) S) = Inr self'
           \<and> (\<forall>n \<in> set (flag_values cls). get_flag cls self' n = Some (n \<in> set S))"
proof -
  from from_flags_loop_True [OF assms, of "from_value 0"]
  obtain self' where loop: "from_flags_loop cls (from_value 0) (map (\<lambda>n. (n, PyBool True)) S) = Inr self'"
    and bits: "\<forall>e \<in> set cls. has_flag self' (flag e) = (name e \<in> set S \<or> has_flag (from_value 0) (flag e))"
    by blast
  have "get_flag cls self' n = Some (n \<in> set S)" if "n \<in> set (flag_values cls)" for n
  proof -
    from that obtain e where e: "e \<in> set cls" "n = name e"
      by (auto simp: flag_values_set)
    from assms(1) e(1) obtain i where "flag e = 2 ^ i"
      by (rule member_index)
    then have "has_flag (from_value 0) (flag e) = False"
      by (simp only: has_flag_zero)
    moreover from bits e(1)
    have "has_flag self' (flag e) = (name e \<in> set S \<or> has_flag (from_value 0) (flag e))"
      by blast
    ultimately have "has_flag self' (flag e) = (n \<in> set S)"
      using e(2) by simp
    moreover have "get_flag cls self' n = Some (has_flag self' (flag e))"
      using assms(1) e by (simp add: get_flag_member)
    ultimately show ?thesis
      by simp
  qed
  with loop show ?thesis
    by (auto simp: from_flags_def)
qed

theorem from_flags_get_witness:
  "wf_class Language \<and> set [''english'', ''french''] \<subseteq> set (flag_values Language)
   \<and> (\<exists>self'. from_flags Language [(''english'', PyBool True), (''french'', PyBool True)] = Inr self'
         \<and> get_flag Language self' ''english'' = Some True
         \<and> get_flag Language self' ''german'' = Some False)"
proof -
  have m: "set [''english'', ''french''] \<subseteq> set (flag_values Language)"
    "''english'' \<in> set (flag_values Language)" "''german'' \<in> set (flag_values Language)"
    by (simp_all add: flag_values_set Language_def)
  from from_flags_get [OF wf_class_Language m(1)] m show ?thesis
    by (auto simp: wf_class_Language)
qed

subsection \<open>The value stays in range\<close>

lemma set_flag_in_range:
  assumes "in_range cls self" "i < length cls"
  shows "in_range cls (set_flag self (2 ^ i) b)"
proof -
  from assms(1) have v: "0 \<le> val self" "val self < 2 ^ length cls"
    by (simp_all add: in_range_def length_flag_values)
  from assms(2) have f: "(2::int) ^ i < 2 ^ length cls"
    by simp
  have "val self OR 2 ^ i < 2 ^ length cls"
    using v f by (rule OR_upper)
  moreover have "0 \<le> val self OR 2 ^ i"
    using v(1) by simp
  moreover have "val self AND NOT (2 ^ i) \<le> val self"
    using v(1) by (rule AND_upper1)
  moreover have "0 \<le> val self AND NOT (2 ^ i)"
    using v(1) by simp
  ultimately show ?thesis
    using v by (auto simp: in_range_def set_flag_def length_flag_values)
qed

lemma setattr_in_range:
  assumes "wf_class cls" "in_range cls self" "k \<in> set (flag_values cls)"
    and "setattr cls self k v = Inr self'"
  shows "in_range cls self'"
proof -
  from assms(3) obtain d where d: "d \<in> set cls" "k = name d"
    by (auto simp: flag_values_set)
  with assms(1) obtain i where i: "i < length cls" "flag d = 2 ^ i"
    by (auto elim: member_index)
  from assms(1,4) d have "self' = set_flag self (flag d) (truthy v)"
    by (simp add: setattr_member)
  with i assms(2) show ?thesis
    by (simp add: set_flag_in_range)
qed

lemma from_flags_loop_in_range:
  assumes "wf_class cls"
  shows "fst ` set kw \<subseteq> set (flag_values cls) \<Longrightarrow> in_range cls self \<Longrightarrow>
         from_flags_loop cls self kw = Inr self' \<Longrightarrow> in_range cls self'"
proof (induction kw arbitrary: self)
  case Nil
  then show ?case by simp
next
  case (Cons p kw)
  obtain k v where p: "p = (k, v)" by (cases p)
  with Cons.prems(3) obtain s where s: "setattr cls self k v = Inr s"
    and rest: "from_flags_loop cls s kw = Inr self'"
    by (auto split: if_splits sum.splits)
  from Cons.prems(1) p have k: "k \<in> set (flag_values cls)"
    and kw: "fst ` set kw \<subseteq> set (flag_values cls)"
    by auto
  from assms Cons.prems(2) k s have "in_range cls s"
    by (rule setattr_in_range)
  with kw show ?case
    using rest by (rule Cons.IH)
qed

lemma all_flags_Inr:
  assumes "all_flags cls = Inr a"
  shows "cls \<noteq> [] \<and> a = from_value (2 ^ length (flag_values cls) - 1)"
proof (cases "cls = []")
  case True
  then have "all_flags cls = Inl (ValueError [])"
    by (simp add: all_flags_def flag_values_def getmembers_def int_base2_def)
  with assms show ?thesis by simp
next
  case False
  with assms show ?thesis
    by (simp add: all_flags_nonempty)
qed

lemma by_flags_in_range:
  assumes "wf_class cls" "reachable_by_flags cls a"
  shows "in_range cls a"
  using assms(2)
proof (induction rule: reachable_by_flags.induct)
  case by_none
  show ?case
    by (simp add: none_def in_range_def from_value_def)
next
  case (by_all a)
  then have "a = from_value (2 ^ length (flag_values cls) - 1)"
    by (simp add: all_flags_Inr)
  then show ?case
    by (simp add: in_range_def from_value_def)
next
  case (by_from_flags kw a)
  have "in_range cls (from_value 0)"
    by (simp add: in_range_def from_value_def)
  moreover from by_from_flags(2) have "from_flags_loop cls (from_value 0) kw = Inr a"
    by (simp add: from_flags_def)
  ultimately show ?case
    using from_flags_loop_in_range [OF assms(1) by_from_flags(1)] by blast
next
  case (by_setattr a k v b)
  with assms(1) show ?case
    by (auto intro: setattr_in_range)
qed

text \<open>
  Claim C8, as the code has it: every instance built by \<open>none\<close>, by \<open>all\<close>, by
  \<open>from_flags\<close> on registered flag names, and from those by assignments of registered
  flags has a value of at most \<open>N\<close> bits: \<open>0 \<le> value < 2^N\<close>.
\<close>

theorem reachable_by_flags_in_range:
  assumes "wf_class cls" "reachable_by_flags cls a"
  shows "0 \<le> val a \<and> val a < 2 ^ length (flag_values cls)"
  using by_flags_in_range [OF assms] by (simp add: in_range_def)

lemma from_flags_english_french:
  "from_flags Language [(''english'', PyBool True), (''french'', PyBool True)]
     = Inr \<lparr>val = 2 ^ 7 + 2 ^ 11\<rparr>"
  by code_simp

lemma from_flags_raw_value:
  "from_flags Language [(''value'', PyInt (2 ^ 35))] = Inr \<lparr>val = 2 ^ 35\<rparr>"
  by code_simp

theorem reachable_by_flags_in_range_witness:
  "wf_class Language \<and> reachable_by_flags Language \<lparr>val = 2 ^ 7 + 2 ^ 11\<rparr>
   \<and> (0::int) \<le> 2 ^ 7 + 2 ^ 11 \<and> (2 ^ 7 + 2 ^ 11 :: int) < 2 ^ 35"
proof -
  have "fst ` set [(''english'', PyBool True), (''french'', PyBool True)]
      \<subseteq> set (flag_values Language)"
    by (simp add: flag_values_set Language_def)
  then have r: "reachable_by_flags Language \<lparr>val = 2 ^ 7 + 2 ^ 11\<rparr>"
    using from_flags_english_french by (rule by_from_flags)
  from reachable_by_flags_in_range [OF wf_class_Language r] r show ?thesis
    by (simp add: wf_class_Language length_flag_values_Language)
qed

theorem reachable_raw_value_counterexample:
  "from_flags Language [(''value'', PyInt (2 ^ 35))] = Inr \<lparr>val = 2 ^ 35\<rparr>
   \<and> reachable Language \<lparr>val = 2 ^ 35\<rparr>
   \<and> \<not> val \<lparr>val = 2 ^ 35\<rparr> < 2 ^ length (flag_values Language)"
proof -
  have "reachable Language \<lparr>val = 2 ^ 35\<rparr>"
    using from_flags_raw_value by (rule reach_from_flags)
  with from_flags_raw_value show ?thesis
    by (simp add: length_flag_values_Language)
qed

subsection \<open>The result is not the empty string\<close>

lemma bin_count_power: "str_count (bin (2 ^ n)) CHR ''1'' = 1"
proof -
  have "str_count (bin (2 ^ n)) CHR ''1'' = length (filter (bit (2 ^ n :: int)) [0..<Suc n])"
    by (rule bin_count) simp_all
  also have "filter (bit (2 ^ n :: int)) [0..<Suc n] = [n]"
    by (simp add: bit_exp_iff filter_empty_conv)
  finally show ?thesis by simp
qed

text \<open>
  Claim C9, as the code has it: for an instance whose value is in range, as that of
  every instance built by \<open>none\<close>, \<open>all\<close>, \<open>from_flags\<close> on registered flag names and
  assignments of registered flags is, \<open>to_google_flags\<close> returns \<open>None\<close> or a non-empty
  string, and the list it joined has at least one token.
\<close>

theorem to_google_flags_not_empty:
  assumes "wf_class cls" "wf_tokens cls"
    and "in_range cls self \<or> reachable_by_flags cls self"
  shows "to_google_flags cls self \<noteq> Some []
       \<and> (\<forall>s. to_google_flags cls self = Some s \<longrightarrow>
            (\<exists>ts. ts \<noteq> [] \<and> set ts \<subseteq> doc ` set cls
               \<and> (s = join ''|'' ts \<or> s = ''-('' @ join ''|'' ts @ '')'')))"
proof -
  from assms(1,3) have "in_range cls self"
    by (auto intro: by_flags_in_range)
  with assms(1,2) show ?thesis
    by (rule encoding_not_empty)
qed

theorem to_google_flags_not_empty_witness:
  "wf_class Language \<and> wf_tokens Language
   \<and> reachable_by_flags Language \<lparr>val = 2 ^ 7 + 2 ^ 11\<rparr>
   \<and> to_google_flags Language \<lparr>val = 2 ^ 7 + 2 ^ 11\<rparr> \<noteq> Some []"
proof -
  have "fst ` set [(''english'', PyBool True), (''french'', PyBool True)]
      \<subseteq> set (flag_values Language)"
    by (simp add: flag_values_set Language_def)
  then have r: "reachable_by_flags Language \<lparr>val = 2 ^ 7 + 2 ^ 11\<rparr>"
    using from_flags_english_french by (rule by_from_flags)
  then have "in_range Language \<lparr>val = 2 ^ 7 + 2 ^ 11\<rparr> \<or> reachable_by_flags Language \<lparr>val = 2 ^ 7 + 2 ^ 11\<rparr>"
    by (rule disjI2)
  from to_google_flags_not_empty [OF wf_class_Language wf_tokens_Language this] r show ?thesis
    by (simp add: wf_class_Language wf_tokens_Language)
qed

theorem to_google_flags_empty_counterexample:
  "from_flags Language [(''value'', PyInt (2 ^ 35))] = Inr \<lparr>val = 2 ^ 35\<rparr>
   \<and> to_google_flags Language \<lparr>val = 2 ^ 35\<rparr> = Some []"
proof -
  have "positive_list Language \<lparr>val = 2 ^ 35\<rparr> = []"
    by code_simp
  moreover have "str_count (bin (val \<lparr>val = 2 ^ 35\<rparr>)) CHR ''1'' = 1"
    using bin_count_power [of 35] by simp
  ultimately have "to_google_flags Language \<lparr>val = 2 ^ 35\<rparr> = Some []"
    by (simp add: to_google_flags_lists all_flags_enabled_def length_flag_values_Language)
  with from_flags_raw_value show ?thesis ..
qed

subsection \<open>Names that are not flags\<close>








subsection \<open>The complement of an instance\<close>

lemma encode_cases:
  assumes "wf_class cls" "in_range cls self"
    and "0 < set_count cls self" "set_count cls self < length (flag_values cls)"
  shows "to_google_flags cls self =
      (if length (flag_values cls) < 2 * set_count cls self then Some (negated_list cls self)
       else Some (positive_list cls self))"
proof -
  from assms have "val self \<noteq> 0" "\<not> all_flags_enabled cls self"
    using partial_not_extreme [of cls self] by simp_all
  moreover from assms have "str_count (bin (val self)) CHR ''1'' = set_count cls self"
    by (simp add: set_count_bin)
  ultimately show ?thesis
    by (simp add: to_google_flags_lists)
qed

lemma val_complement:
  assumes "in_range cls self"
  shows "val (complement cls self) = take_bit (length cls) (NOT (val self))"
proof -
  from assms have "take_bit (length cls) (val self) = val self"
    by (simp add: in_range_def length_flag_values take_bit_int_eq_self)
  then have "take_bit (length cls) (NOT (val self)) = 2 ^ length cls - 1 - val self"
    by (simp add: take_bit_not_eq_mask_diff mask_eq_exp_minus_1)
  then show ?thesis
    by (simp add: complement_def from_value_def length_flag_values)
qed

lemma complement_in_range:
  assumes "in_range cls self"
  shows "in_range cls (complement cls self)"
proof -
  from assms have "val (complement cls self) = take_bit (length cls) (NOT (val self))"
    by (rule val_complement)
  then show ?thesis
    by (simp add: in_range_def length_flag_values)
qed

lemma has_flag_complement:
  assumes "wf_class cls" "in_range cls self" "d \<in> set cls"
  shows "has_flag (complement cls self) (flag d) = (\<not> has_flag self (flag d))"
proof -
  from assms(1,3) obtain i where "i < length cls" "flag d = 2 ^ i"
    by (auto elim: member_index)
  with assms(2) show ?thesis
    by (simp add: has_flag_bit val_complement bit_simps)
qed

lemma tokens_where_complement:
  assumes "wf_class cls" "in_range cls self"
  shows "tokens_where cls (complement cls self) b = tokens_where cls self (\<not> b)"
proof -
  have "filter (\<lambda>d. has_flag (complement cls self) (flag d) = b) (getmembers cls)
      = filter (\<lambda>d. has_flag self (flag d) = (\<not> b)) (getmembers cls)"
    using assms by (intro filter_cong) (auto simp: set_getmembers has_flag_complement)
  with assms(1) show ?thesis
    by (simp add: tokens_where_members)
qed

lemma set_count_complement:
  assumes "wf_class cls" "in_range cls self"
  shows "set_count cls (complement cls self) = length cls - set_count cls self"
proof -
  have "set_count cls (complement cls self) = length (tokens_where cls (complement cls self) True)"
    using assms(1) by (simp add: length_tokens_where_True)
  also have "\<dots> = length (tokens_where cls self False)"
    using assms by (simp add: tokens_where_complement)
  also have "\<dots> = length cls - set_count cls self"
    using assms(1) by (rule length_tokens_where_False)
  finally show ?thesis .
qed

lemma set_tokens_where:
  assumes "wf_class cls"
  shows "set (tokens_where cls self b) = {doc d |d. d \<in> set cls \<and> has_flag self (flag d) = b}"
  using assms by (auto simp: tokens_where_members set_getmembers)

lemma all_but_english:
  "to_google_flags Language \<lparr>val = 2 ^ 35 - 1 - 2 ^ 7\<rparr> = Some ''-(lang_en)''"
proof -
  let ?x = "\<lparr>val = 2 ^ 35 - 1 - 2 ^ 7\<rparr> :: base_flags"
  have r: "in_range Language ?x"
    by (simp add: in_range_def length_flag_values_Language)
  have k: "set_count Language ?x = 34"
    by code_simp
  have t: "negated_list Language ?x = ''-(lang_en)''"
    by code_simp
  from encode_cases [OF wf_class_Language r] k t show ?thesis
    by (simp add: length_flag_values_Language)
qed

text \<open>
  Claim C3, as the code has it: with \<open>k\<close> flags set, \<open>0 < k \<le> N/2\<close>, the result is the
  \<open>k\<close> tokens of the set flags joined by \<open>|\<close>; the complement, with \<open>N - k\<close> flags set,
  encodes as \<open>-(\<close>, the same \<open>k\<close> tokens joined by \<open>|\<close>, and \<open>)\<close> when \<open>k < N/2\<close>, and as
  the positive list of its own set flags when \<open>k = N/2\<close>. For
  \<open>Language\<close>, all flags but \<open>english\<close> encode as \<open>-(lang_en)\<close>.
\<close>

theorem complement_encoding:
  assumes "wf_class cls" "in_range cls self"
    and "k = set_count cls self" "0 < k" "2 * k \<le> length (flag_values cls)"
  shows "to_google_flags cls self = Some (join ''|'' (tokens_where cls self True))
       \<and> length (tokens_where cls self True) = k
       \<and> set (tokens_where cls self True) = {doc d |d. d \<in> set cls \<and> has_flag self (flag d)}
       \<and> set_count cls (complement cls self) = length (flag_values cls) - k
       \<and> (2 * k < length (flag_values cls) \<longrightarrow>
            to_google_flags cls (complement cls self)
              = Some (''-('' @ join ''|'' (tokens_where cls self True) @ '')''))
       \<and> (2 * k = length (flag_values cls) \<longrightarrow>
            to_google_flags cls (complement cls self)
              = Some (join ''|'' (tokens_where cls self False)))
       \<and> to_google_flags Language \<lparr>val = 2 ^ 35 - 1 - 2 ^ 7\<rparr> = Some ''-(lang_en)''"
proof -
  let ?N = "length (flag_values cls)"
  let ?c = "complement cls self"
  from assms have kN: "set_count cls self < ?N" by simp
  have "to_google_flags cls self = Some (positive_list cls self)"
    using assms kN by (simp add: encode_cases)
  then have pos: "to_google_flags cls self = Some (join ''|'' (tokens_where cls self True))"
    by (simp add: positive_list_def)
  have len: "length (tokens_where cls self True) = k"
    using assms(1,3) by (simp add: length_tokens_where_True)
  have toks: "set (tokens_where cls self True) = {doc d |d. d \<in> set cls \<and> has_flag self (flag d)}"
    using assms(1) by (simp add: set_tokens_where)
  have cnt: "set_count cls ?c = ?N - k"
    using assms(1,2,3) by (simp add: set_count_complement length_flag_values)
  have neg: "to_google_flags cls ?c = Some (''-('' @ join ''|'' (tokens_where cls self True) @ '')'')"
    if "2 * k < ?N"
  proof -
    from that assms(4) cnt have "0 < set_count cls ?c" "set_count cls ?c < ?N" "?N < 2 * set_count cls ?c"
      by simp_all
    with assms(1,2) have "to_google_flags cls ?c = Some (negated_list cls ?c)"
      by (simp add: encode_cases complement_in_range)
    with assms(1,2) show ?thesis
      by (simp add: negated_list_def tokens_where_complement)
  qed
  have tie: "to_google_flags cls ?c = Some (join ''|'' (tokens_where cls self False))"
    if "2 * k = ?N"
  proof -
    from that assms(4) cnt have "0 < set_count cls ?c" "set_count cls ?c < ?N" "\<not> ?N < 2 * set_count cls ?c"
      by simp_all
    with assms(1,2) have "to_google_flags cls ?c = Some (positive_list cls ?c)"
      by (simp add: encode_cases complement_in_range)
    with assms(1,2) show ?thesis
      by (simp add: positive_list_def tokens_where_complement)
  qed
  from pos len toks cnt neg tie all_but_english show ?thesis
    by blast
qed

theorem complement_encoding_witness:
  "wf_class Language \<and> in_range Language \<lparr>val = 2 ^ 7\<rparr>
   \<and> set_count Language \<lparr>val = 2 ^ 7\<rparr> = 1
   \<and> to_google_flags Language \<lparr>val = 2 ^ 7\<rparr> = Some ''lang_en''
   \<and> complement Language \<lparr>val = 2 ^ 7\<rparr> = \<lparr>val = 2 ^ 35 - 1 - 2 ^ 7\<rparr>
   \<and> to_google_flags Language (complement Language \<lparr>val = 2 ^ 7\<rparr>) = Some ''-(lang_en)''"
proof -
  have r: "in_range Language \<lparr>val = 2 ^ 7\<rparr>"
    by (simp add: in_range_def length_flag_values_Language)
  have k: "set_count Language \<lparr>val = 2 ^ 7\<rparr> = 1"
    by code_simp
  have t: "tokens_where Language \<lparr>val = 2 ^ 7\<rparr> True = [''lang_en'']"
    by code_simp
  have c: "complement Language \<lparr>val = 2 ^ 7\<rparr> = \<lparr>val = 2 ^ 35 - 1 - 2 ^ 7\<rparr>"
    by (simp add: complement_def length_flag_values_Language from_value_def)
  from complement_encoding [OF wf_class_Language r k [symmetric]] r k t c show ?thesis
    by (simp add: wf_class_Language length_flag_values_Language)
qed

subsection \<open>The class \<open>CountryCode\<close>\<close>

lemma distinct_names_CountryCode: "distinct (map name CountryCode)"
  by (simp add: CountryCode_def)

lemma bits_from_CountryCode: "bits_from 0 CountryCode"
  by (simp add: CountryCode_def)

lemma names_CountryCode:
  "list_all (\<lambda>d. name d \<noteq> ''value'' \<and> name d \<notin> set class_attrs) CountryCode"
  by (simp add: CountryCode_def class_attrs_def)

lemma wf_class_CountryCode: "wf_class CountryCode"
  by (simp add: wf_class_def distinct_names_CountryCode bits_from_CountryCode names_CountryCode)

lemma docs_CountryCode:
  "list_all (\<lambda>d. doc d \<noteq> [] \<and> CHR ''|'' \<notin> set (doc d) \<and> hd (doc d) \<noteq> CHR ''-'') CountryCode"
  by (simp add: CountryCode_def)

lemma distinct_docs_CountryCode: "distinct (map doc CountryCode)"
  by (simp add: CountryCode_def)

lemma wf_tokens_CountryCode: "wf_tokens CountryCode"
  by (simp add: wf_tokens_def distinct_docs_CountryCode docs_CountryCode)

lemma length_flag_values_CountryCode: "length (flag_values CountryCode) = 242"
  by (simp add: length_flag_values CountryCode_def)

lemma set_count_mask:
  assumes "wf_class cls" "m \<le> length cls"
  shows "set_count cls \<lparr>val = 2 ^ m - 1\<rparr> = m"
proof -
  have b: "bit (2 ^ m - 1 :: int) = (\<lambda>i. i < m)"
    by (simp add: fun_eq_iff bit_mask_iff flip: mask_eq_exp_minus_1)
  from assms(2) obtain j where j: "length cls = m + j"
    by (auto simp: le_iff_add)
  have "[0..<m + j] = [0..<m] @ [m..<m + j]"
    by (rule upt_add_eq_append) simp
  then have "filter (\<lambda>i. i < m) [0..<m + j] = [0..<m]"
    by (simp add: filter_empty_conv)
  with assms(1) b j show ?thesis
    by (simp add: set_count_bits)
qed

theorem complement_tie_counterexample:
  "set_count CountryCode \<lparr>val = 2 ^ 121 - 1\<rparr> = 121
   \<and> 2 * 121 \<le> length (flag_values CountryCode)
   \<and> complement CountryCode \<lparr>val = 2 ^ 121 - 1\<rparr> = \<lparr>val = 2 ^ 242 - 2 ^ 121\<rparr>
   \<and> set_count CountryCode \<lparr>val = 2 ^ 242 - 2 ^ 121\<rparr> = 242 - 121
   \<and> to_google_flags CountryCode \<lparr>val = 2 ^ 242 - 2 ^ 121\<rparr>
       = Some (positive_list CountryCode \<lparr>val = 2 ^ 242 - 2 ^ 121\<rparr>)
   \<and> to_google_flags CountryCode \<lparr>val = 2 ^ 242 - 2 ^ 121\<rparr>
       \<noteq> Some (''-('' @ join ''|'' (tokens_where CountryCode \<lparr>val = 2 ^ 121 - 1\<rparr> True) @ '')'')"
proof -
  let ?a = "\<lparr>val = 2 ^ 121 - 1\<rparr> :: base_flags"
  let ?c = "\<lparr>val = 2 ^ 242 - 2 ^ 121\<rparr> :: base_flags"
  note wf = wf_class_CountryCode
  have len: "length CountryCode = 242"
    using length_flag_values_CountryCode by (simp add: length_flag_values)
  have ka: "set_count CountryCode ?a = 121"
    by (rule set_count_mask [OF wf]) (simp add: len)
  have ra: "in_range CountryCode ?a"
    by (simp add: in_range_def length_flag_values_CountryCode)
  have c: "complement CountryCode ?a = ?c"
    by (simp add: complement_def from_value_def length_flag_values_CountryCode)
  have rc: "in_range CountryCode ?c"
    using complement_in_range [OF ra] by (simp only: c)
  have kc: "set_count CountryCode ?c = 121"
    using set_count_complement [OF wf ra] ka len unfolding c by simp
  have enc: "to_google_flags CountryCode ?c = Some (positive_list CountryCode ?c)"
    using encode_cases [OF wf rc] kc by (simp add: length_flag_values_CountryCode)
  have "tokens_where CountryCode ?c True \<noteq> []"
    using length_tokens_where_True [OF wf, of ?c] kc by auto
  with docs_CountryCode have "\<not> is_negated (positive_list CountryCode ?c)"
    using positive_list_shape [of CountryCode ?c] by simp
  then have ne: "positive_list CountryCode ?c
      \<noteq> ''-('' @ join ''|'' (tokens_where CountryCode ?a True) @ '')''"
    by (auto simp: is_negated_def)
  from ka c kc enc ne show ?thesis
    by (simp add: length_flag_values_CountryCode)
qed

subsection \<open>Reading the encoding back\<close>

lemma split_on_no_sep: "c \<notin> set t \<Longrightarrow> split_on c t = [t]"
  by (induction t) auto

lemma split_on_append: "c \<notin> set t \<Longrightarrow> split_on c (t @ c # rest) = t # split_on c rest"
  by (induction t) auto

lemma split_on_join:
  "ts \<noteq> [] \<Longrightarrow> \<forall>t \<in> set ts. c \<notin> set t \<Longrightarrow> split_on c (join [c] ts) = ts"
  by (induction "[c]" ts rule: join.induct) (simp_all add: split_on_no_sep split_on_append)

lemma find_distinct_doc:
  "distinct (map doc cls) \<Longrightarrow> d \<in> set cls \<Longrightarrow> find (\<lambda>e. doc e = doc d) cls = Some d"
  by (induction cls) auto

lemma spec_token_names_docs:
  assumes "wf_tokens cls"
  shows "set ds \<subseteq> set cls \<Longrightarrow> spec_token_names cls (map doc ds) = Some (map name ds)"
proof (induction ds)
  case Nil
  then show ?case by simp
next
  case (Cons d ds)
  then have "d \<in> set cls" by simp
  with assms have "spec_token_name cls (doc d) = Some (name d)"
    by (simp add: spec_token_name_def wf_tokens_def find_distinct_doc)
  with Cons show ?case by simp
qed

lemma names_where_members:
  "wf_class cls \<Longrightarrow>
   map fst (filter (\<lambda>(k, v). v = b) (iter cls self))
     = map name (filter (\<lambda>d. has_flag self (flag d) = b) (getmembers cls))"
  by (simp add: iter_members filter_map comp_def)

lemma spec_strip_wrapper_negated:
  "spec_strip_wrapper (''-('' @ body @ '')'') = (True, body)"
  by (simp add: spec_strip_wrapper_def is_negated_def butlast_append)

lemma in_range_high_bit:
  assumes "in_range cls self" "length cls \<le> i"
  shows "\<not> bit (val self) i"
proof -
  from assms(2) have le: "(2::int) ^ length cls \<le> 2 ^ i"
    by (simp add: power_increasing)
  from assms(1) have "0 \<le> val self" and lt: "val self < 2 ^ length cls"
    by (simp_all add: in_range_def length_flag_values)
  moreover from lt le have "val self < 2 ^ i"
    by (rule less_le_trans)
  ultimately show ?thesis
    by (simp add: bit_iff_odd)
qed

lemma in_range_eqI:
  assumes "wf_class cls" "in_range cls x" "in_range cls y"
    and "\<forall>e \<in> set cls. has_flag x (flag e) = has_flag y (flag e)"
  shows "x = y"
proof -
  have "val x = val y"
  proof (rule bit_eqI)
    fix i
    show "bit (val x) i = bit (val y) i"
    proof (cases "i < length cls")
      case True
      then have "cls ! i \<in> set cls" by simp
      moreover from assms(1) True have "flag (cls ! i) = 2 ^ i"
        using bits_from_nth [of 0 cls i] by (simp add: wf_class_def)
      ultimately show ?thesis
        using assms(4) by (metis has_flag_bit)
    next
      case False
      with assms(2,3) show ?thesis
        by (simp add: in_range_high_bit)
    qed
  qed
  then show ?thesis by simp
qed

lemma from_flags_loop_const:
  assumes "wf_class cls" "set S \<subseteq> set (flag_values cls)"
  shows "\<exists>self'. from_flags_loop cls self (map (\<lambda>n. (n, PyBool b)) S) = Inr self'
           \<and> (\<forall>e \<in> set cls. has_flag self' (flag e)
                 = (if name e \<in> set S then b else has_flag self (flag e)))"
  using assms(2)
proof (induction S arbitrary: self)
  case Nil
  then show ?case by simp
next
  case (Cons n S)
  then obtain d where d: "d \<in> set cls" "n = name d"
    by (auto simp: flag_values_set)
  let ?s = "set_flag self (flag d) b"
  from Cons.prems have "set S \<subseteq> set (flag_values cls)" by simp
  from Cons.IH [OF this, of ?s]
  obtain self' where loop: "from_flags_loop cls ?s (map (\<lambda>n. (n, PyBool b)) S) = Inr self'"
    and bits: "\<forall>e \<in> set cls. has_flag self' (flag e)
        = (if name e \<in> set S then b else has_flag ?s (flag e))"
    by blast
  have "hasattr cls self n"
    using Cons.prems by (simp add: hasattr_member)
  with loop have "from_flags_loop cls self (map (\<lambda>n. (n, PyBool b)) (n # S)) = Inr self'"
    using assms(1) d by (simp add: setattr_member)
  moreover have "\<forall>e \<in> set cls. has_flag self' (flag e)
      = (if name e \<in> set (n # S) then b else has_flag self (flag e))"
    using bits assms(1) d by (auto simp: has_flag_set_flag)
  ultimately show ?case by blast
qed

lemma name_mem_filter:
  assumes "wf_class cls" "e \<in> set cls"
  shows "(name e \<in> set (map name (filter Q (getmembers cls)))) = Q e"
proof -
  from assms(1) have "inj_on name (set cls)"
    by (simp add: wf_class_def distinct_map)
  with assms(2) show ?thesis
    by (auto simp: set_getmembers dest: inj_onD)
qed

lemma names_subset_flag_values:
  "set (map name (filter Q (getmembers cls))) \<subseteq> set (flag_values cls)"
  by (auto simp: flag_values_def)

lemma decode_tokens:
  assumes "wf_class cls" "wf_tokens cls" "tokens_where cls self b \<noteq> []"
  shows "spec_token_names cls (split_on CHR ''|'' (join ''|'' (tokens_where cls self b)))
       = Some (map fst (filter (\<lambda>(k, v). v = b) (iter cls self)))"
proof -
  let ?ds = "filter (\<lambda>d. has_flag self (flag d) = b) (getmembers cls)"
  have ts: "tokens_where cls self b = map doc ?ds"
    using assms(1) by (rule tokens_where_members)
  have "\<forall>t \<in> set (tokens_where cls self b). CHR ''|'' \<notin> set t"
    using assms(2) by (auto simp: wf_tokens_def list_all_iff dest!: tokens_where_docs)
  with assms(3) have "split_on CHR ''|'' (join ''|'' (tokens_where cls self b)) = tokens_where cls self b"
    by (simp add: split_on_join)
  moreover have "spec_token_names cls (map doc ?ds) = Some (map name ?ds)"
    using assms(2) by (rule spec_token_names_docs) (auto simp: set_getmembers)
  ultimately show ?thesis
    using assms(1) by (simp add: ts names_where_members)
qed

lemma rebuild_positive:
  assumes "wf_class cls" "in_range cls self"
  shows "from_flags cls (map (\<lambda>n. (n, PyBool True))
           (map fst (filter (\<lambda>(k, v). v = True) (iter cls self)))) = Inr self"
proof -
  let ?S = "map name (filter (\<lambda>d. has_flag self (flag d) = True) (getmembers cls))"
  have zero: "in_range cls (from_value 0)"
    by (simp add: in_range_def from_value_def)
  from from_flags_loop_const [OF assms(1) names_subset_flag_values, where self = "from_value 0" and b = True]
  obtain self' where loop: "from_flags_loop cls (from_value 0) (map (\<lambda>n. (n, PyBool True)) ?S) = Inr self'"
    and bits: "\<forall>e \<in> set cls. has_flag self' (flag e)
        = (if name e \<in> set ?S then True else has_flag (from_value 0) (flag e))"
    by blast
  have "has_flag self' (flag e) = has_flag self (flag e)" if "e \<in> set cls" for e
  proof -
    from assms(1) that obtain i where "flag e = 2 ^ i"
      by (rule member_index)
    then have "has_flag (from_value 0) (flag e) = False"
      by (simp only: has_flag_zero)
    with bits that name_mem_filter [OF assms(1) that, of "\<lambda>d. has_flag self (flag d) = True"]
    show ?thesis by auto
  qed
  moreover have "in_range cls self'"
    using from_flags_loop_in_range [OF assms(1) _ zero loop] names_subset_flag_values [of _ cls]
    by (simp add: image_comp comp_def)
  ultimately have eq: "self' = self"
    using assms by (intro in_range_eqI [of cls]) auto
  have nm: "map fst (filter (\<lambda>(k, v). v = True) (iter cls self)) = ?S"
    using assms(1) by (rule names_where_members)
  from loop show ?thesis
    by (simp only: from_flags_def nm eq)
qed

lemma rebuild_negated:
  assumes "wf_class cls" "in_range cls self"
  shows "from_flags_loop cls (from_value (2 ^ length (flag_values cls) - 1))
           (map (\<lambda>n. (n, PyBool False)) (map fst (filter (\<lambda>(k, v). v = False) (iter cls self))))
         = Inr self"
proof -
  let ?S = "map name (filter (\<lambda>d. has_flag self (flag d) = False) (getmembers cls))"
  let ?full = "from_value (2 ^ length (flag_values cls) - 1)"
  have full: "in_range cls ?full"
    by (simp add: in_range_def from_value_def)
  from from_flags_loop_const [OF assms(1) names_subset_flag_values, where self = ?full and b = False]
  obtain self' where loop: "from_flags_loop cls ?full (map (\<lambda>n. (n, PyBool False)) ?S) = Inr self'"
    and bits: "\<forall>e \<in> set cls. has_flag self' (flag e)
        = (if name e \<in> set ?S then False else has_flag ?full (flag e))"
    by blast
  have "has_flag self' (flag e) = has_flag self (flag e)" if "e \<in> set cls" for e
  proof -
    from assms(1) that obtain i where i: "i < length cls" "flag e = 2 ^ i"
      by (auto elim: member_index)
    have "bit (2 ^ length cls - 1 :: int) i"
      using i(1) by (simp add: bit_mask_iff flip: mask_eq_exp_minus_1)
    then have "has_flag ?full (flag e) = True"
      by (simp add: i(2) has_flag_bit from_value_def length_flag_values)
    with bits that name_mem_filter [OF assms(1) that, of "\<lambda>d. has_flag self (flag d) = False"]
    show ?thesis by auto
  qed
  moreover have "in_range cls self'"
    using from_flags_loop_in_range [OF assms(1) _ full loop] names_subset_flag_values [of _ cls]
    by (simp add: image_comp comp_def)
  ultimately have eq: "self' = self"
    using assms by (intro in_range_eqI [of cls]) auto
  have nm: "map fst (filter (\<lambda>(k, v). v = False) (iter cls self)) = ?S"
    using assms(1) by (rule names_where_members)
  from loop show ?thesis
    by (simp only: nm eq)
qed

text \<open>
  Claim C5: for an instance in range with some but not all flags set, decoding the
  string that \<open>to_google_flags\<close> returns gives the names of the set flags (positive
  list) or of the unset flags (negated list), and rebuilding from them gives the
  original instance.
\<close>

theorem round_trip:
  assumes "wf_class cls" "wf_tokens cls" "in_range cls self"
    and "val self \<noteq> 0" "\<not> all_flags_enabled cls self"
  shows "\<exists>s. to_google_flags cls self = Some s
           \<and> spec_decode_names cls s
               = Some (is_negated s,
                       map fst (filter (\<lambda>(k, v). v = (\<not> is_negated s)) (iter cls self)))
           \<and> spec_decode cls s = Some self"
proof -
  let ?N = "length (flag_values cls)"
  from assms(3,4) have ne: "cls \<noteq> []"
    by (auto simp: in_range_def length_flag_values)
  from assms(4) have nz: "0 < set_count cls self"
    using set_count_zero [OF assms(1,3)] by auto
  from assms(5) have "set_count cls self \<noteq> length cls"
    using set_count_all [OF assms(1,3)]
    by (auto simp: all_flags_enabled_def length_flag_values)
  then have nf: "set_count cls self < length cls"
    using set_count_le [of cls self] by simp
  from nz assms(1) have pos: "tokens_where cls self True \<noteq> []"
    using length_tokens_where_True [of cls self] by auto
  from nf assms(1) have neg: "tokens_where cls self False \<noteq> []"
    using length_tokens_where_False [of cls self] by auto
  show ?thesis
  proof (cases "?N < 2 * str_count (bin (val self)) CHR ''1''")
    case True
    let ?s = "negated_list cls self"
    have enc: "to_google_flags cls self = Some ?s"
      using assms(4,5) True by (simp add: to_google_flags_lists)
    have isn: "is_negated ?s"
      by (simp add: negated_list_shape)
    have strip: "spec_strip_wrapper ?s = (True, join ''|'' (tokens_where cls self False))"
      unfolding negated_list_def by (rule spec_strip_wrapper_negated)
    have names: "spec_decode_names cls ?s
        = Some (True, map fst (filter (\<lambda>(k, v). v = False) (iter cls self)))"
      using decode_tokens [OF assms(1,2) neg] by (simp add: spec_decode_names_def strip)
    have "spec_decode cls ?s = Some self"
      using names all_flags_nonempty [OF ne] rebuild_negated [OF assms(1,3)]
      by (simp add: spec_decode_def)
    with enc names isn show ?thesis
      by simp
  next
    case False
    let ?s = "positive_list cls self"
    have enc: "to_google_flags cls self = Some ?s"
      using assms(4,5) False by (simp add: to_google_flags_lists)
    have isn: "\<not> is_negated ?s"
      using positive_list_shape [of cls self] assms(2) pos by (simp add: wf_tokens_def)
    then have strip: "spec_strip_wrapper ?s = (False, join ''|'' (tokens_where cls self True))"
      by (simp add: spec_strip_wrapper_def positive_list_def)
    have names: "spec_decode_names cls ?s
        = Some (False, map fst (filter (\<lambda>(k, v). v = True) (iter cls self)))"
      using decode_tokens [OF assms(1,2) pos] by (simp add: spec_decode_names_def strip)
    have "spec_decode cls ?s = Some self"
      using names rebuild_positive [OF assms(1,3)]
      by (simp add: spec_decode_def)
    with enc names isn show ?thesis
      by simp
  qed
qed

theorem round_trip_witness:
  "wf_class Language \<and> wf_tokens Language \<and> in_range Language \<lparr>val = 160\<rparr>
   \<and> to_google_flags Language \<lparr>val = 160\<rparr> = Some ''lang_en|lang_de''
   \<and> spec_decode_names Language ''lang_en|lang_de'' = Some (False, [''english'', ''german''])
   \<and> spec_decode Language ''lang_en|lang_de'' = Some \<lparr>val = 160\<rparr>"
proof -
  have r: "in_range Language \<lparr>val = 160\<rparr>"
    by (simp add: in_range_def length_flag_values_Language)
  have n: "val \<lparr>val = 160\<rparr> \<noteq> 0" "\<not> all_flags_enabled Language \<lparr>val = 160\<rparr>"
    by (simp_all add: all_flags_enabled_def length_flag_values_Language)
  have e: "to_google_flags Language \<lparr>val = 160\<rparr> = Some ''lang_en|lang_de''"
    by code_simp
  have i: "map fst (filter (\<lambda>(k, v). v = True) (iter Language \<lparr>val = 160\<rparr>)) = [''english'', ''german'']"
    by code_simp
  have "\<not> is_negated ''lang_en|lang_de''"
    by (simp add: is_negated_def)
  with round_trip [OF wf_class_Language wf_tokens_Language r n] e i r show ?thesis
    by (simp add: wf_class_Language wf_tokens_Language)
qed

end
